theory Spec2Isabelle
  imports Complex_Main "HOL-Library.Log_Nat"
begin

section \<open>Python floats\<close>

text \<open>
  Every quantity of the application is a \<^verbatim>\<open>db.Float\<close> column or a Python float: an IEEE 754
  binary64 number. A \<open>double\<close> is such a number: a finite value (\<open>Fin\<close>, which is also
  the positive zero), the negative zero, the two infinities, or NaN. The arithmetic rounds
  the exact result to the nearest double, ties to the even significand, with gradual
  underflow and overflow to infinity, as the processor does. The real number under
  \<open>Fin\<close> is not required to be representable: the operations round their results, and
  what is proved for every real number holds for the doubles among them.
\<close>

datatype double = Fin real | NegZero | PosInf | NegInf | NaN

definition sign :: "double \<Rightarrow> bool" where
  "sign x = (case x of Fin q \<Rightarrow> q < 0 | NegZero \<Rightarrow> True | PosInf \<Rightarrow> False
             | NegInf \<Rightarrow> True | NaN \<Rightarrow> False)"

definition val :: "double \<Rightarrow> real" where
  "val x = (case x of Fin q \<Rightarrow> q | _ \<Rightarrow> 0)"

definition is_inf :: "double \<Rightarrow> bool" where
  "is_inf x = (x = PosInf \<or> x = NegInf)"

definition is_zero :: "double \<Rightarrow> bool" where
  "is_zero x = (x = Fin 0 \<or> x = NegZero)"

definition is_finite :: "double \<Rightarrow> bool" where
  "is_finite x = (case x of Fin q \<Rightarrow> True | NegZero \<Rightarrow> True | _ \<Rightarrow> False)"

definition szero :: "bool \<Rightarrow> double" where
  "szero s = (if s then NegZero else Fin 0)"

definition infty :: "bool \<Rightarrow> double" where
  "infty s = (if s then NegInf else PosInf)"

text \<open>Powers of two with an integer exponent, and the binary exponent of a positive number.\<close>

definition pow2 :: "int \<Rightarrow> real" where
  "pow2 e = (if 0 \<le> e then 2 ^ nat e else 1 / 2 ^ nat (- e))"

definition ilog2 :: "real \<Rightarrow> int" where
  "ilog2 q = (if 1 \<le> q then bitlen \<lfloor>q\<rfloor> - 1 else - bitlen (\<lceil>1 / q\<rceil> - 1))"

definition round_half_even :: "real \<Rightarrow> int" where
  "round_half_even x =
     (let f = \<lfloor>x\<rfloor>; d = x - of_int f
      in if d < 1 / 2 then f
         else if 1 / 2 < d then f + 1
         else if even f then f else f + 1)"

text \<open>
  The nearest multiple of the unit in the last place of a positive \<open>q\<close>: 53 significant
  bits, and no exponent below that of the smallest normal number.
\<close>

definition round_mag :: "real \<Rightarrow> real" where
  "round_mag q =
     (let u = pow2 (max (ilog2 q) (- 1022) - 52)
      in of_int (round_half_even (q / u)) * u)"

text \<open>The double nearest to the number of sign \<open>s\<close> and magnitude \<open>q\<close>.\<close>

definition nearest :: "bool \<Rightarrow> real \<Rightarrow> double" where
  "nearest s q =
     (if q = 0 then szero s
      else let r = round_mag q
           in if pow2 1024 \<le> r then infty s
              else if r = 0 then szero s
              else Fin (if s then - r else r))"

text \<open>The double that a decimal literal denotes.\<close>

definition dbl :: "real \<Rightarrow> double" where
  "dbl q = nearest (q < 0) \<bar>q\<bar>"

definition fmul :: "double \<Rightarrow> double \<Rightarrow> double" where
  "fmul a b =
     (if a = NaN \<or> b = NaN then NaN
      else if is_inf a \<or> is_inf b
           then (if is_zero a \<or> is_zero b then NaN else infty (sign a \<noteq> sign b))
      else nearest (sign a \<noteq> sign b) (\<bar>val a\<bar> * \<bar>val b\<bar>))"

text \<open>
  The IEEE quotient. Python raises ZeroDivisionError on a zero divisor instead of
  returning an infinity or NaN; \<open>truediv\<close> below is Python's \<^verbatim>\<open>/\<close>.
\<close>

definition fdiv :: "double \<Rightarrow> double \<Rightarrow> double" where
  "fdiv a b =
     (if a = NaN \<or> b = NaN then NaN
      else if is_inf a then (if is_inf b then NaN else infty (sign a \<noteq> sign b))
      else if is_inf b then szero (sign a \<noteq> sign b)
      else if is_zero b then (if is_zero a then NaN else infty (sign a \<noteq> sign b))
      else nearest (sign a \<noteq> sign b) (\<bar>val a\<bar> / \<bar>val b\<bar>))"

definition fadd :: "double \<Rightarrow> double \<Rightarrow> double" where
  "fadd a b =
     (if a = NaN \<or> b = NaN then NaN
      else if is_inf a then (if is_inf b \<and> a \<noteq> b then NaN else a)
      else if is_inf b then b
      else let r = val a + val b
           in if r = 0 then szero (sign a \<and> sign b) else nearest (r < 0) \<bar>r\<bar>)"

definition fneg :: "double \<Rightarrow> double" where
  "fneg x = (case x of Fin q \<Rightarrow> (if q = 0 then NegZero else Fin (- q)) | NegZero \<Rightarrow> Fin 0
             | PosInf \<Rightarrow> NegInf | NegInf \<Rightarrow> PosInf | NaN \<Rightarrow> NaN)"

definition fsub :: "double \<Rightarrow> double \<Rightarrow> double" where
  "fsub a b = fadd a (fneg b)"

text \<open>The comparisons \<^verbatim>\<open><\<close>, \<^verbatim>\<open>>\<close>, \<^verbatim>\<open>==\<close> and \<^verbatim>\<open><=\<close>: false whenever an operand is NaN.\<close>

definition flt :: "double \<Rightarrow> double \<Rightarrow> bool" where
  "flt a b =
     (a \<noteq> NaN \<and> b \<noteq> NaN \<and> a \<noteq> PosInf \<and> b \<noteq> NegInf \<and>
      (a = NegInf \<or> b = PosInf \<or> val a < val b))"

definition fgt :: "double \<Rightarrow> double \<Rightarrow> bool" where
  "fgt a b = flt b a"

definition feq :: "double \<Rightarrow> double \<Rightarrow> bool" where
  "feq a b = (a \<noteq> NaN \<and> b \<noteq> NaN \<and> (a = b \<or> (is_finite a \<and> is_finite b \<and> val a = val b)))"

definition fle :: "double \<Rightarrow> double \<Rightarrow> bool" where
  "fle a b = (flt a b \<or> feq a b)"

section \<open>Python values and built-ins\<close>

text \<open>
  A raised exception is a value of \<open>exn\<close>, a dict is a map from its string keys. The
  ints of the source (0, 1, 4, 9, 100) are the doubles of the same value: wherever the
  source computes with one, its other operand is a float and Python converts the int
  first, and a comparison of an int with a float compares the values. Where the source
  returns such an int unchanged (an empty total, the percentage of a goal that is not
  positive, a remaining amount below zero), the model has the double 0.0.
\<close>

datatype exn = ValueError | KeyError | AttributeError | ZeroDivisionError | IntegrityError

text \<open>The values that the route answers put into a dict: numbers and booleans.\<close>

datatype pyval = Num double | Bool bool

type_synonym 'v dict = "string \<rightharpoonup> 'v"

text \<open>\<^verbatim>\<open>d[k]\<close> raises KeyError on a missing key, \<^verbatim>\<open>d.get(k, default)\<close> does not.\<close>

definition getitem :: "'v dict \<Rightarrow> string \<Rightarrow> exn + 'v" where
  "getitem d k = (case d k of None \<Rightarrow> Inl KeyError | Some v \<Rightarrow> Inr v)"

definition dict_get :: "'v dict \<Rightarrow> string \<Rightarrow> 'v \<Rightarrow> 'v" where
  "dict_get d k dflt = (case d k of None \<Rightarrow> dflt | Some v \<Rightarrow> v)"

text \<open>\<^verbatim>\<open>a / b\<close> raises ZeroDivisionError when \<^verbatim>\<open>b\<close> is a zero of either sign.\<close>

definition truediv :: "double \<Rightarrow> double \<Rightarrow> exn + double" where
  "truediv a b = (if is_zero b then Inl ZeroDivisionError else Inr (fdiv a b))"

text \<open>
  \<^verbatim>\<open>min(a, b)\<close> and \<^verbatim>\<open>max(a, b)\<close> keep the first argument unless the second is smaller,
  respectively larger.
\<close>

definition py_min :: "double \<Rightarrow> double \<Rightarrow> double" where
  "py_min a b = (if flt b a then b else a)"

definition py_max :: "double \<Rightarrow> double \<Rightarrow> double" where
  "py_max a b = (if fgt b a then b else a)"

text \<open>
  \<^verbatim>\<open>round(x, ndigits)\<close> for \<^verbatim>\<open>ndigits\<close> of 0 or more: the exact value of \<^verbatim>\<open>x\<close> is rounded to
  the closest multiple of \<open>10 ^ - ndigits\<close>, of two equally close multiples to the even
  one, and the decimal obtained is converted to the nearest double; the sign of \<^verbatim>\<open>x\<close> is
  kept, and infinities and NaN are returned as they are.
\<close>

definition py_round :: "double \<Rightarrow> nat \<Rightarrow> double" where
  "py_round x ndigits =
     (if is_finite x
      then nearest (sign x) (\<bar>of_int (round_half_even (val x * 10 ^ ndigits))\<bar> / 10 ^ ndigits)
      else x)"

text \<open>
  What SQLite stores for a float: NaN is bound as NULL, which a column declared
  \<^verbatim>\<open>nullable=False\<close> refuses (the commit raises IntegrityError) and a nullable column
  keeps as NULL; a zero of either sign is written as the integer 0 and read back as 0.0;
  every other double, the infinities too, is read back as it was written.
\<close>

definition not_null :: "double \<Rightarrow> bool" where
  "not_null x = (x \<noteq> NaN)"

definition sqlite_real :: "double \<Rightarrow> double" where
  "sqlite_real x = (if x = NegZero then Fin 0 else x)"

definition nullable :: "double \<Rightarrow> double option" where
  "nullable x = (if x = NaN then None else Some (sqlite_real x))"

section \<open>Data model\<close>

type_synonym date = "nat \<times> nat \<times> nat"
type_synonym time = "nat \<times> nat"
type_synonym datetime = "date \<times> time"

text \<open>
  The three tables. The columns keep their names behind a prefix per table (\<open>cfg_\<close>,
  \<open>tpl_\<close>, \<open>rec_\<close>), since several tables share column names. A nullable column is an
  option.
\<close>

record UserConfig =
  cfg_id :: int
  cfg_weight :: double
  cfg_carb_per_kg :: double
  cfg_protein_per_kg :: double
  cfg_fat_per_kg :: double
  cfg_updated_at :: datetime

record FoodTemplate =
  tpl_id :: int
  tpl_name :: string
  tpl_carb_ratio :: double
  tpl_protein_ratio :: double
  tpl_fat_ratio :: double
  tpl_calories :: "double option"
  tpl_created_at :: datetime

text \<open>
  \<open>rec_template_id\<close> holds what \<^verbatim>\<open>add_record\<close> passes to the column: the form's text, or
  None.
\<close>

record DailyRecord =
  rec_id :: int
  rec_date :: date
  rec_time :: time
  rec_food_name :: string
  rec_weight :: double
  rec_carb_ratio :: double
  rec_protein_ratio :: double
  rec_fat_ratio :: double
  rec_notes :: string
  rec_template_id :: "string option"
  rec_created_at :: datetime

section \<open>NutrientCalculator\<close>

definition calculate_daily_goals :: "UserConfig \<Rightarrow> double dict" where
  "calculate_daily_goals user_config =
     [''carb'' \<mapsto> fmul (cfg_weight user_config) (cfg_carb_per_kg user_config),
      ''protein'' \<mapsto> fmul (cfg_weight user_config) (cfg_protein_per_kg user_config),
      ''fat'' \<mapsto> fmul (cfg_weight user_config) (cfg_fat_per_kg user_config)]"

text \<open>The divisor of \<^verbatim>\<open>/ 100\<close> is not zero, so these divisions cannot raise.\<close>

definition calculate_nutrient_amount :: "DailyRecord \<Rightarrow> double dict" where
  "calculate_nutrient_amount record =
     (let carb_g = fdiv (fmul (rec_weight record) (rec_carb_ratio record)) (Fin 100);
          protein_g = fdiv (fmul (rec_weight record) (rec_protein_ratio record)) (Fin 100);
          fat_g = fdiv (fmul (rec_weight record) (rec_fat_ratio record)) (Fin 100);
          calories = fadd (fadd (fmul carb_g (Fin 4)) (fmul protein_g (Fin 4)))
                       (fmul fat_g (Fin 9))
      in [''carb'' \<mapsto> carb_g, ''protein'' \<mapsto> protein_g, ''fat'' \<mapsto> fat_g,
          ''calories'' \<mapsto> calories])"

text \<open>
  The inner loop of \<^verbatim>\<open>get_daily_summary\<close>, \<^verbatim>\<open>for key in total: total[key] += nutrients[key]\<close>,
  over the keys of \<^verbatim>\<open>total\<close> in insertion order.
\<close>

fun add_nutrients :: "double dict \<Rightarrow> double dict \<Rightarrow> string list \<Rightarrow> exn + double dict" where
  "add_nutrients totals nutrients [] = Inr totals"
| "add_nutrients totals nutrients (key # keys) =
     (case getitem totals key of
        Inl e \<Rightarrow> Inl e
      | Inr t \<Rightarrow>
          (case getitem nutrients key of
             Inl e \<Rightarrow> Inl e
           | Inr n \<Rightarrow> add_nutrients (totals(key \<mapsto> fadd t n)) nutrients keys))"

text \<open>The outer loop, \<^verbatim>\<open>for record in records\<close>.\<close>

fun sum_records :: "double dict \<Rightarrow> DailyRecord list \<Rightarrow> exn + double dict" where
  "sum_records totals [] = Inr totals"
| "sum_records totals (record # records) =
     (case add_nutrients totals (calculate_nutrient_amount record)
             [''carb'', ''protein'', ''fat'', ''calories''] of
        Inl e \<Rightarrow> Inl e
      | Inr totals' \<Rightarrow> sum_records totals' records)"

text \<open>
  \<^verbatim>\<open>get_daily_summary(target_date)\<close> reads the table of daily records and the clock; both
  are arguments here: \<open>daily_records\<close> is the table in the order of the query, \<open>today\<close>
  is \<^verbatim>\<open>date.today()\<close>.
\<close>

definition get_daily_summary :: "DailyRecord list \<Rightarrow> date \<Rightarrow> date option \<Rightarrow> exn + double dict" where
  "get_daily_summary daily_records today target_date =
     (let target_date = (case target_date of None \<Rightarrow> today | Some d \<Rightarrow> d);
          records = filter (\<lambda>r. rec_date r = target_date) daily_records;
          totals = [''carb'' \<mapsto> Fin 0, ''protein'' \<mapsto> Fin 0, ''fat'' \<mapsto> Fin 0,
                    ''calories'' \<mapsto> Fin 0]
      in sum_records totals records)"

text \<open>
  One round of the loop of \<^verbatim>\<open>get_progress\<close>. The conditional expression evaluates the
  division only when \<^verbatim>\<open>goal > 0\<close>.
\<close>

definition progress_entry :: "double dict \<Rightarrow> double dict \<Rightarrow> string \<Rightarrow> exn + pyval dict" where
  "progress_entry goals daily_summary nutrient =
     (let consumed = dict_get daily_summary nutrient (Fin 0);
          goal = dict_get goals nutrient (Fin 1)
      in case (if fgt goal (Fin 0)
               then (case truediv consumed goal of
                       Inl e \<Rightarrow> Inl e
                     | Inr q \<Rightarrow> Inr (py_min (fmul q (Fin 100)) (Fin 100)))
               else Inr (Fin 0)) of
           Inl e \<Rightarrow> Inl e
         | Inr percentage \<Rightarrow>
             Inr [''consumed'' \<mapsto> Num (py_round consumed 1),
                  ''goal'' \<mapsto> Num (py_round goal 1),
                  ''percentage'' \<mapsto> Num (py_round percentage 1),
                  ''remaining'' \<mapsto> Num (py_max (py_round (fsub goal consumed) 1) (Fin 0)),
                  ''is_over'' \<mapsto> Bool (fgt consumed goal)])"

fun progress_loop ::
  "double dict \<Rightarrow> double dict \<Rightarrow> string list \<Rightarrow> pyval dict dict \<Rightarrow> exn + pyval dict dict" where
  "progress_loop goals daily_summary [] progress = Inr progress"
| "progress_loop goals daily_summary (nutrient # nutrients) progress =
     (case progress_entry goals daily_summary nutrient of
        Inl e \<Rightarrow> Inl e
      | Inr entry \<Rightarrow> progress_loop goals daily_summary nutrients (progress(nutrient \<mapsto> entry)))"

definition get_progress :: "UserConfig \<Rightarrow> double dict \<Rightarrow> exn + pyval dict dict" where
  "get_progress user_config daily_summary =
     (let goals = calculate_daily_goals user_config
      in progress_loop goals daily_summary [''carb'', ''protein'', ''fat''] Map.empty)"

text \<open>Reading one field of one nutrient out of the answer of \<^verbatim>\<open>get_progress\<close>.\<close>

definition progress_field :: "exn + pyval dict dict \<Rightarrow> string \<Rightarrow> string \<Rightarrow> pyval option" where
  "progress_field result nutrient field =
     (case result of
        Inl e \<Rightarrow> None
      | Inr progress \<Rightarrow> (case progress nutrient of None \<Rightarrow> None | Some entry \<Rightarrow> entry field))"

text \<open>\<^verbatim>\<open>calculate_nutrient_amount(record)[key]\<close>, for stating sums over records.\<close>

definition amount :: "DailyRecord \<Rightarrow> string \<Rightarrow> double" where
  "amount record key = dict_get (calculate_nutrient_amount record) key (Fin 0)"

section \<open>The database, the requests and the built-ins\<close>

text \<open>
  The database is the three tables, each a list of rows in the order of their row ids.
  A commit replaces the database; a request that ends without a commit, or whose commit
  raises, leaves it as it was: the session rolls back. A row holds what a later request
  reads from its columns, so a view writes its floats through \<open>sqlite_real\<close>.
\<close>

record db =
  tbl_user_config :: "UserConfig list"
  tbl_food_template :: "FoodTemplate list"
  tbl_daily_record :: "DailyRecord list"

text \<open>
  What the handlers take from outside the repository: the parsers \<^verbatim>\<open>float\<close>, \<^verbatim>\<open>int\<close>
  and \<^verbatim>\<open>datetime.strptime(_, '%H:%M').time()\<close> (None where Python raises ValueError), and
  the clock: \<^verbatim>\<open>date.today()\<close>, \<^verbatim>\<open>datetime.now().strftime('%H:%M')\<close>, \<^verbatim>\<open>datetime.utcnow()\<close>.
  \<^verbatim>\<open>float\<close> may return any double, the infinities and NaN too.
\<close>

record env =
  env_float :: "string \<Rightarrow> double option"
  env_int :: "string \<Rightarrow> int option"
  env_strptime :: "string \<Rightarrow> time option"
  env_today :: date
  env_now :: string
  env_utcnow :: datetime

datatype http_method = GET | POST

record request =
  rq_method :: http_method
  rq_form :: "string dict"

text \<open>
  A response is the list of flashed messages, each with its category, and what the view
  returns. The texts of the messages are Chinese in the source; each is a constructor
  here. The context handed to a rendered page is not part of the model.
\<close>

datatype message =
    Config_updated
  | Invalid_number
  | Invalid_number_detail exn
  | Record_added
  | Add_failed exn
  | Ratio_sum_exceeds
  | Template_added
  | Record_deleted
  | Template_deleted
  | Template_updated
  | Update_failed exn

datatype body =
    Rendered string
  | Redirected string
  | Json "pyval dict dict"
  | Aborted nat

type_synonym response = "(message \<times> string) list \<times> body"

definition bind_exn :: "exn + 'a \<Rightarrow> ('a \<Rightarrow> exn + 'b) \<Rightarrow> exn + 'b" where
  "bind_exn m f = (case m of Inl e \<Rightarrow> Inl e | Inr x \<Rightarrow> f x)"

definition to_float :: "env \<Rightarrow> string \<Rightarrow> exn + double" where
  "to_float env s = (case env_float env s of None \<Rightarrow> Inl ValueError | Some x \<Rightarrow> Inr x)"

definition to_int :: "env \<Rightarrow> string \<Rightarrow> exn + int" where
  "to_int env s = (case env_int env s of None \<Rightarrow> Inl ValueError | Some i \<Rightarrow> Inr i)"

definition to_time :: "env \<Rightarrow> string \<Rightarrow> exn + time" where
  "to_time env s = (case env_strptime env s of None \<Rightarrow> Inl ValueError | Some t \<Rightarrow> Inr t)"

text \<open>\<^verbatim>\<open>float(request.form[k])\<close>: KeyError on a missing field, ValueError on a bad one.\<close>

definition form_float :: "env \<Rightarrow> string dict \<Rightarrow> string \<Rightarrow> exn + double" where
  "form_float env fm k = bind_exn (getitem fm k) (to_float env)"

text \<open>The truth value of \<^verbatim>\<open>request.form.get(k)\<close>: present and not empty.\<close>

definition truthy :: "string option \<Rightarrow> bool" where
  "truthy v = (case v of None \<Rightarrow> False | Some s \<Rightarrow> s \<noteq> [])"

text \<open>The id of a new row: one more than the largest in the table, 1 in an empty table.\<close>

definition next_id :: "int list \<Rightarrow> int" where
  "next_id ids = fold max ids 0 + 1"

text \<open>\<^verbatim>\<open>Model.query.first()\<close> and \<^verbatim>\<open>Model.query.get(id)\<close>.\<close>

definition query_first :: "'a list \<Rightarrow> 'a option" where
  "query_first rows = (case rows of [] \<Rightarrow> None | r # _ \<Rightarrow> Some r)"

definition get_template :: "db \<Rightarrow> int \<Rightarrow> FoodTemplate option" where
  "get_template s i = find (\<lambda>t. tpl_id t = i) (tbl_food_template s)"

definition get_record :: "db \<Rightarrow> int \<Rightarrow> DailyRecord option" where
  "get_record s i = find (\<lambda>r. rec_id r = i) (tbl_daily_record s)"

text \<open>
  \<^verbatim>\<open>db.session.commit()\<close> of a row whose float columns declared \<^verbatim>\<open>nullable=False\<close> hold the
  given values.
\<close>

definition commit_floats :: "double list \<Rightarrow> exn + unit" where
  "commit_floats xs = (if list_all not_null xs then Inr () else Inl IntegrityError)"

section \<open>init_database\<close>

text \<open>The default configuration is added to an empty table, where the new row has id 1.\<close>

definition default_config :: "env \<Rightarrow> UserConfig" where
  "default_config env =
     \<lparr>cfg_id = 1, cfg_weight = Fin 60, cfg_carb_per_kg = Fin 3,
      cfg_protein_per_kg = dbl (15 / 10), cfg_fat_per_kg = dbl (8 / 10),
      cfg_updated_at = env_utcnow env\<rparr>"

text \<open>The names of the sample templates are the UTF-8 bytes of the source's literals.\<close>

definition sample_templates :: "(string \<times> double \<times> double \<times> double) list" where
  "sample_templates =
     [([CHR 0xE7, CHR 0x99, CHR 0xBD, CHR 0xE7, CHR 0xB1, CHR 0xB3, CHR 0xE9, CHR 0xA5, CHR 0xAD],
       Fin 75, Fin 7, Fin 1),
      ([CHR 0xE9, CHR 0xB8, CHR 0xA1, CHR 0xE8, CHR 0x83, CHR 0xB8, CHR 0xE8, CHR 0x82, CHR 0x89],
       Fin 0, Fin 23, Fin 2),
      ([CHR 0xE9, CHR 0xB8, CHR 0xA1, CHR 0xE8, CHR 0x9B, CHR 0x8B], Fin 1, Fin 13, Fin 11),
      ([CHR 0xE7, CHR 0x82, CHR 0x92, CHR 0xE9, CHR 0xA5, CHR 0xAD], Fin 40, Fin 20, Fin 10)]"

fun add_templates :: "env \<Rightarrow> (string \<times> double \<times> double \<times> double) list \<Rightarrow> FoodTemplate list \<Rightarrow> FoodTemplate list" where
  "add_templates env [] rows = rows"
| "add_templates env ((name, carb, protein, fat) # rest) rows =
     add_templates env rest
       (rows @ [\<lparr>tpl_id = next_id (map tpl_id rows), tpl_name = name, tpl_carb_ratio = carb,
                 tpl_protein_ratio = protein, tpl_fat_ratio = fat, tpl_calories = None,
                 tpl_created_at = env_utcnow env\<rparr>])"

definition init_database :: "env \<Rightarrow> db \<Rightarrow> db" where
  "init_database env s =
     (if query_first (tbl_user_config s) = None
      then s\<lparr>tbl_user_config := tbl_user_config s @ [default_config env],
             tbl_food_template := add_templates env sample_templates (tbl_food_template s)\<rparr>
      else s)"

section \<open>Views that write\<close>

text \<open>
  Each view takes the built-ins, the request and the database, and returns the database
  after the request with the response. The body of a \<^verbatim>\<open>try\<close> block is a function of its
  own that returns the raised exception or the result; the view then follows the
  \<^verbatim>\<open>except\<close> clauses in their order. An exception that no clause catches ends the request
  with an error status: 400 for the KeyError of a missing form field, 500 otherwise.
\<close>

definition config_try :: "env \<Rightarrow> string dict \<Rightarrow> db \<Rightarrow> exn + db \<times> response" where
  "config_try env fm s =
     bind_exn (form_float env fm ''weight'') (\<lambda>weight.
     case query_first (tbl_user_config s) of
       None \<Rightarrow> Inl AttributeError
     | Some user_config \<Rightarrow>
     bind_exn (form_float env fm ''carb_per_kg'') (\<lambda>carb_per_kg.
     bind_exn (form_float env fm ''protein_per_kg'') (\<lambda>protein_per_kg.
     bind_exn (form_float env fm ''fat_per_kg'') (\<lambda>fat_per_kg.
     let user_config = user_config\<lparr>cfg_weight := sqlite_real weight,
                          cfg_carb_per_kg := sqlite_real carb_per_kg,
                          cfg_protein_per_kg := sqlite_real protein_per_kg,
                          cfg_fat_per_kg := sqlite_real fat_per_kg,
                          cfg_updated_at := env_utcnow env\<rparr>
     in
     bind_exn (commit_floats [weight, carb_per_kg, protein_per_kg, fat_per_kg]) (\<lambda>_.
       Inr (s\<lparr>tbl_user_config := user_config # tl (tbl_user_config s)\<rparr>,
            ([(Config_updated, ''success'')], Redirected ''index'')))))))"

definition config :: "env \<Rightarrow> request \<Rightarrow> db \<Rightarrow> db \<times> response" where
  "config env rq s =
     (if rq_method rq = POST
      then (case config_try env (rq_form rq) s of
              Inr result \<Rightarrow> result
            | Inl ValueError \<Rightarrow> (s, ([(Invalid_number, ''error'')], Rendered ''config.html''))
            | Inl KeyError \<Rightarrow> (s, ([], Aborted 400))
            | Inl e \<Rightarrow> (s, ([], Aborted 500)))
      else (s, ([], Rendered ''config.html'')))"

text \<open>
  The ratios of a new record: copied from the template when the form names one, read
  from the form otherwise. \<^verbatim>\<open>template.carb_ratio\<close> on a template that does not exist
  raises AttributeError.
\<close>

definition record_ratios :: "env \<Rightarrow> string dict \<Rightarrow> db \<Rightarrow> string option \<Rightarrow> exn + double \<times> double \<times> double" where
  "record_ratios env fm s template_id =
     (if truthy template_id \<and> template_id \<noteq> Some ''custom''
      then bind_exn (to_int env (case template_id of Some t \<Rightarrow> t | None \<Rightarrow> [])) (\<lambda>i.
             case get_template s i of
               None \<Rightarrow> Inl AttributeError
             | Some template \<Rightarrow>
                 Inr (tpl_carb_ratio template, tpl_protein_ratio template, tpl_fat_ratio template))
      else bind_exn (form_float env fm ''carb_ratio'') (\<lambda>carb_ratio.
           bind_exn (form_float env fm ''protein_ratio'') (\<lambda>protein_ratio.
           bind_exn (form_float env fm ''fat_ratio'') (\<lambda>fat_ratio.
             Inr (carb_ratio, protein_ratio, fat_ratio)))))"

definition add_record_try :: "env \<Rightarrow> string dict \<Rightarrow> db \<Rightarrow> exn + db \<times> response" where
  "add_record_try env fm s =
     bind_exn (getitem fm ''food_name'') (\<lambda>food_name.
     bind_exn (form_float env fm ''weight'') (\<lambda>weight.
     let template_id = fm ''template_id'' in
     bind_exn (record_ratios env fm s template_id) (\<lambda>(carb_ratio, protein_ratio, fat_ratio).
     let time_str = dict_get fm ''time'' (env_now env) in
     bind_exn (to_time env time_str) (\<lambda>record_time.
     let record =
           \<lparr>rec_id = next_id (map rec_id (tbl_daily_record s)),
            rec_date = env_today env,
            rec_time = record_time,
            rec_food_name = food_name,
            rec_weight = sqlite_real weight,
            rec_carb_ratio = sqlite_real carb_ratio,
            rec_protein_ratio = sqlite_real protein_ratio,
            rec_fat_ratio = sqlite_real fat_ratio,
            rec_notes = dict_get fm ''notes'' [],
            rec_template_id = (if template_id \<noteq> Some ''custom'' then template_id else None),
            rec_created_at = env_utcnow env\<rparr>
     in
     bind_exn (commit_floats [weight, carb_ratio, protein_ratio, fat_ratio]) (\<lambda>_.
       Inr (s\<lparr>tbl_daily_record := tbl_daily_record s @ [record]\<rparr>,
            ([(Record_added, ''success'')], Redirected ''index'')))))))"

definition add_record :: "env \<Rightarrow> request \<Rightarrow> db \<Rightarrow> db \<times> response" where
  "add_record env rq s =
     (if rq_method rq = POST
      then (case add_record_try env (rq_form rq) s of
              Inr result \<Rightarrow> result
            | Inl ValueError \<Rightarrow>
                (s, ([(Invalid_number_detail ValueError, ''error'')], Rendered ''add_record.html''))
            | Inl e \<Rightarrow> (s, ([(Add_failed e, ''error'')], Rendered ''add_record.html'')))
      else (s, ([], Rendered ''add_record.html'')))"

definition add_template_try :: "env \<Rightarrow> string dict \<Rightarrow> db \<Rightarrow> exn + db \<times> response" where
  "add_template_try env fm s =
     bind_exn (form_float env fm ''carb_ratio'') (\<lambda>carb_ratio.
     bind_exn (form_float env fm ''protein_ratio'') (\<lambda>protein_ratio.
     bind_exn (form_float env fm ''fat_ratio'') (\<lambda>fat_ratio.
     let total_ratio = fadd (fadd carb_ratio protein_ratio) fat_ratio
     in if fgt total_ratio (Fin 100)
        then Inr (s, ([(Ratio_sum_exceeds, ''error'')], Rendered ''add_template.html''))
        else
     bind_exn (getitem fm ''name'') (\<lambda>name.
     let template =
           \<lparr>tpl_id = next_id (map tpl_id (tbl_food_template s)),
            tpl_name = name,
            tpl_carb_ratio = sqlite_real carb_ratio,
            tpl_protein_ratio = sqlite_real protein_ratio,
            tpl_fat_ratio = sqlite_real fat_ratio,
            tpl_calories = None,
            tpl_created_at = env_utcnow env\<rparr>
     in
     bind_exn (if truthy (fm ''calories'')
               then bind_exn (form_float env fm ''calories'') (\<lambda>calories.
                      Inr (template\<lparr>tpl_calories := nullable calories\<rparr>))
               else Inr template) (\<lambda>template.
     bind_exn (commit_floats [carb_ratio, protein_ratio, fat_ratio]) (\<lambda>_.
       Inr (s\<lparr>tbl_food_template := tbl_food_template s @ [template]\<rparr>,
            ([(Template_added, ''success'')], Redirected ''templates''))))))))"

definition add_template :: "env \<Rightarrow> request \<Rightarrow> db \<Rightarrow> db \<times> response" where
  "add_template env rq s =
     (if rq_method rq = POST
      then (case add_template_try env (rq_form rq) s of
              Inr result \<Rightarrow> result
            | Inl ValueError \<Rightarrow> (s, ([(Invalid_number, ''error'')], Rendered ''add_template.html''))
            | Inl e \<Rightarrow> (s, ([(Add_failed e, ''error'')], Rendered ''add_template.html'')))
      else (s, ([], Rendered ''add_template.html'')))"

text \<open>
  The two delete routes accept GET only; any other method is answered with status 405
  before the view runs. \<^verbatim>\<open>get_or_404\<close> ends the request with status 404 when no row has
  the id. No relationship is declared between the tables, so deleting a template
  touches the table of templates alone.
\<close>

definition delete_record :: "request \<Rightarrow> int \<Rightarrow> db \<Rightarrow> db \<times> response" where
  "delete_record rq i s =
     (if rq_method rq \<noteq> GET then (s, ([], Aborted 405))
      else case get_record s i of
             None \<Rightarrow> (s, ([], Aborted 404))
           | Some record \<Rightarrow>
               (s\<lparr>tbl_daily_record := filter (\<lambda>r. rec_id r \<noteq> rec_id record) (tbl_daily_record s)\<rparr>,
                ([(Record_deleted, ''success'')], Redirected ''index'')))"

definition delete_template :: "request \<Rightarrow> int \<Rightarrow> db \<Rightarrow> db \<times> response" where
  "delete_template rq i s =
     (if rq_method rq \<noteq> GET then (s, ([], Aborted 405))
      else case get_template s i of
             None \<Rightarrow> (s, ([], Aborted 404))
           | Some template \<Rightarrow>
               (s\<lparr>tbl_food_template :=
                    filter (\<lambda>t. tpl_id t \<noteq> tpl_id template) (tbl_food_template s)\<rparr>,
                ([(Template_deleted, ''success'')], Redirected ''templates'')))"

text \<open>
  The \<^verbatim>\<open>try\<close> block of \<^verbatim>\<open>edit_template\<close> sets the attributes of the row one by one and
  commits; on any exception nothing is committed.
\<close>

definition edit_template_try :: "env \<Rightarrow> string dict \<Rightarrow> FoodTemplate \<Rightarrow> db \<Rightarrow> exn + db \<times> response" where
  "edit_template_try env fm template s =
     bind_exn (getitem fm ''name'') (\<lambda>name.
     bind_exn (form_float env fm ''carb_ratio'') (\<lambda>carb_ratio.
     bind_exn (form_float env fm ''protein_ratio'') (\<lambda>protein_ratio.
     bind_exn (form_float env fm ''fat_ratio'') (\<lambda>fat_ratio.
     let edited = template\<lparr>tpl_name := name, tpl_carb_ratio := sqlite_real carb_ratio,
                            tpl_protein_ratio := sqlite_real protein_ratio,
                            tpl_fat_ratio := sqlite_real fat_ratio\<rparr>
     in
     bind_exn (if truthy (fm ''calories'')
               then bind_exn (form_float env fm ''calories'') (\<lambda>calories.
                      Inr (edited\<lparr>tpl_calories := nullable calories\<rparr>))
               else Inr edited) (\<lambda>edited.
     bind_exn (commit_floats [carb_ratio, protein_ratio, fat_ratio]) (\<lambda>_.
       Inr (s\<lparr>tbl_food_template :=
                map (\<lambda>t. if tpl_id t = tpl_id template then edited else t)
                  (tbl_food_template s)\<rparr>,
            ([(Template_updated, ''success'')], Redirected ''templates''))))))))"

definition edit_template :: "env \<Rightarrow> request \<Rightarrow> int \<Rightarrow> db \<Rightarrow> db \<times> response" where
  "edit_template env rq i s =
     (case get_template s i of
        None \<Rightarrow> (s, ([], Aborted 404))
      | Some template \<Rightarrow>
          if rq_method rq = POST
          then (case edit_template_try env (rq_form rq) template s of
                  Inr result \<Rightarrow> result
                | Inl e \<Rightarrow> (s, ([(Update_failed e, ''error'')], Rendered ''edit_template.html'')))
          else (s, ([], Rendered ''edit_template.html'')))"

section \<open>Views that only read\<close>

text \<open>
  These views query the database and render; they commit nothing. With no row in the
  configuration table \<^verbatim>\<open>user_config\<close> is None and \<^verbatim>\<open>calculate_daily_goals\<close> raises
  AttributeError, which ends the request with status 500.
\<close>

definition index :: "request \<Rightarrow> db \<Rightarrow> db \<times> response" where
  "index rq s =
     (s, ([], if rq_method rq \<noteq> GET then Aborted 405
              else case query_first (tbl_user_config s) of
                     None \<Rightarrow> Aborted 500
                   | Some user_config \<Rightarrow> Rendered ''dashboard.html''))"

definition templates :: "request \<Rightarrow> db \<Rightarrow> db \<times> response" where
  "templates rq s =
     (s, ([], if rq_method rq \<noteq> GET then Aborted 405 else Rendered ''templates.html''))"

definition history :: "request \<Rightarrow> db \<Rightarrow> db \<times> response" where
  "history rq s =
     (s, ([], if rq_method rq \<noteq> GET then Aborted 405
              else case query_first (tbl_user_config s) of
                     None \<Rightarrow> Aborted 500
                   | Some user_config \<Rightarrow> Rendered ''history.html''))"

definition api_progress :: "env \<Rightarrow> request \<Rightarrow> db \<Rightarrow> db \<times> response" where
  "api_progress env rq s =
     (s, ([], if rq_method rq \<noteq> GET then Aborted 405
              else case query_first (tbl_user_config s) of
                     None \<Rightarrow> Aborted 500
                   | Some user_config \<Rightarrow>
                       (case bind_exn (get_daily_summary (tbl_daily_record s) (env_today env) None)
                               (get_progress user_config) of
                          Inl e \<Rightarrow> Aborted 500
                        | Inr progress \<Rightarrow> Json progress)))"

section \<open>Routing\<close>

datatype route =
    Index
  | Config
  | Add_record
  | Add_template
  | Templates
  | History
  | Api_progress
  | Delete_record int
  | Delete_template int
  | Edit_template int

fun handle :: "env \<Rightarrow> route \<Rightarrow> request \<Rightarrow> db \<Rightarrow> db \<times> response" where
  "handle env Index rq s = index rq s"
| "handle env Config rq s = config env rq s"
| "handle env Add_record rq s = add_record env rq s"
| "handle env Add_template rq s = add_template env rq s"
| "handle env Templates rq s = templates rq s"
| "handle env History rq s = history rq s"
| "handle env Api_progress rq s = api_progress env rq s"
| "handle env (Delete_record i) rq s = delete_record rq i s"
| "handle env (Delete_template i) rq s = delete_template rq i s"
| "handle env (Edit_template i) rq s = edit_template env rq i s"

section \<open>An environment for the examples\<close>

text \<open>
  The examples below run the views on concrete requests. Their environment parses an
  unsigned decimal (digits, or digits, a point and digits) as the double nearest to the
  number it writes, \<^verbatim>\<open>inf\<close> and \<^verbatim>\<open>nan\<close> as the infinity and NaN, and a time as one or
  two digits, a colon and one or two digits; it rejects every other string. On the
  strings the examples use this is what Python's \<^verbatim>\<open>float\<close>, \<^verbatim>\<open>int\<close> and \<^verbatim>\<open>strptime\<close>
  answer.
\<close>

definition digit_val :: "char \<Rightarrow> nat option" where
  "digit_val c =
     (let smaller = takeWhile (\<lambda>d. d \<noteq> c) ''0123456789''
      in if length smaller < 10 then Some (length smaller) else None)"

fun decimal_acc :: "nat \<Rightarrow> string \<Rightarrow> nat option" where
  "decimal_acc n [] = Some n"
| "decimal_acc n (c # cs) =
     (case digit_val c of None \<Rightarrow> None | Some d \<Rightarrow> decimal_acc (10 * n + d) cs)"

definition decimal :: "string \<Rightarrow> nat option" where
  "decimal s = (if s = [] then None else decimal_acc 0 s)"

definition hour_minute :: "string \<Rightarrow> time option" where
  "hour_minute s =
     (let hh = takeWhile (\<lambda>c. c \<noteq> CHR '':'') s;
          mm = drop 1 (dropWhile (\<lambda>c. c \<noteq> CHR '':'') s)
      in case (decimal hh, decimal mm) of
           (Some h, Some m) \<Rightarrow>
             if length hh \<le> 2 \<and> length mm \<le> 2 \<and> h < 24 \<and> m < 60 then Some (h, m) else None
         | _ \<Rightarrow> None)"

definition decimal_number :: "string \<Rightarrow> real option" where
  "decimal_number s =
     (let whole = takeWhile (\<lambda>c. c \<noteq> CHR ''.'') s;
          fraction = drop 1 (dropWhile (\<lambda>c. c \<noteq> CHR ''.'') s)
      in if CHR ''.'' \<notin> set s then map_option real (decimal s)
         else case (decimal whole, decimal fraction) of
                (Some a, Some b) \<Rightarrow> Some (real a + real b / 10 ^ length fraction)
              | _ \<Rightarrow> None)"

definition example_float :: "string \<Rightarrow> double option" where
  "example_float s =
     (if s = ''nan'' then Some NaN
      else if s = ''inf'' then Some PosInf
      else map_option dbl (decimal_number s))"

definition example_env :: env where
  "example_env =
     \<lparr>env_float = example_float,
      env_int = (\<lambda>s. map_option int (decimal s)),
      env_strptime = hour_minute,
      env_today = (2024, 5, 17),
      env_now = ''12:30'',
      env_utcnow = ((2024, 5, 17), (4, 30))\<rparr>"

text \<open>
  A database for the examples: the default configuration, one template, and one record
  of 100 g made from that template.
\<close>

definition example_template :: FoodTemplate where
  "example_template =
     \<lparr>tpl_id = 1, tpl_name = ''rice'', tpl_carb_ratio = Fin 75, tpl_protein_ratio = Fin 7,
      tpl_fat_ratio = Fin 1, tpl_calories = None, tpl_created_at = ((2024, 5, 16), (9, 0))\<rparr>"

definition example_record :: DailyRecord where
  "example_record =
     \<lparr>rec_id = 1, rec_date = (2024, 5, 17), rec_time = (7, 5), rec_food_name = ''rice'',
      rec_weight = Fin 100, rec_carb_ratio = Fin 75, rec_protein_ratio = Fin 7,
      rec_fat_ratio = Fin 1, rec_notes = [], rec_template_id = Some ''1'',
      rec_created_at = ((2024, 5, 16), (23, 5))\<rparr>"

definition example_db :: db where
  "example_db =
     \<lparr>tbl_user_config = [default_config example_env],
      tbl_food_template = [example_template],
      tbl_daily_record = [example_record]\<rparr>"

definition post :: "string dict \<Rightarrow> request" where
  "post fm = \<lparr>rq_method = POST, rq_form = fm\<rparr>"

text \<open>
  Four forms for the template views: one within the bound on the sum, one beyond it,
  one whose ratios add up to 100.0 in double arithmetic, and one whose ratios, 100 as a
  sum of decimals, add up to 100.00000000000001 in double arithmetic.
\<close>

definition oats_form :: "string dict" where
  "oats_form =
     [''name'' \<mapsto> ''oats'', ''carb_ratio'' \<mapsto> ''60'', ''protein_ratio'' \<mapsto> ''13'',
      ''fat_ratio'' \<mapsto> ''7'']"

definition over_form :: "string dict" where
  "over_form =
     [''name'' \<mapsto> ''rice'', ''carb_ratio'' \<mapsto> ''60'', ''protein_ratio'' \<mapsto> ''60'',
      ''fat_ratio'' \<mapsto> ''60'']"

definition boundary_form :: "string dict" where
  "boundary_form =
     [''name'' \<mapsto> ''mix'', ''carb_ratio'' \<mapsto> ''45.7'', ''protein_ratio'' \<mapsto> ''27.3'',
      ''fat_ratio'' \<mapsto> ''27.0'']"

definition rounding_form :: "string dict" where
  "rounding_form =
     [''name'' \<mapsto> ''mix'', ''carb_ratio'' \<mapsto> ''30.1'', ''protein_ratio'' \<mapsto> ''34.2'',
      ''fat_ratio'' \<mapsto> ''35.7'']"

section \<open>Rounding to the nearest double\<close>

lemma pow2_powi: "pow2 e = 2 powi e"
  by (simp add: pow2_def power_int_def field_simps)

lemma pow2_pos: "0 < pow2 e"
  by (simp add: pow2_powi)

lemma pow2_add: "pow2 (a + b) = pow2 a * pow2 b"
  by (simp add: pow2_powi power_int_add)

lemma pow2_mono: "a \<le> b \<Longrightarrow> pow2 a \<le> pow2 b"
  by (simp add: pow2_powi power_int_increasing)

lemma pow2_strict_mono: "a < b \<Longrightarrow> pow2 a < pow2 b"
  by (simp add: pow2_powi power_int_strict_increasing)

lemma pow2_less_cancel: "pow2 a < pow2 b \<Longrightarrow> a < b"
  using pow2_mono [of b a] by (cases "a < b") auto

lemma pow2_nat: "0 \<le> e \<Longrightarrow> pow2 e = 2 ^ nat e"
  by (simp add: pow2_def)

lemma ilog2_bounds:
  assumes "0 < q"
  shows "pow2 (ilog2 q) \<le> q" and "q < pow2 (ilog2 q + 1)"
proof -
  have "pow2 (ilog2 q) \<le> q \<and> q < pow2 (ilog2 q + 1)"
  proof (cases "1 \<le> q")
    case True
    let ?n = "\<lfloor>q\<rfloor>"
    have n: "0 < ?n" using True by simp
    have k: "1 \<le> bitlen ?n"
      using n bitlen_eq_zero_iff [of ?n] bitlen_nonneg [of ?n] by linarith
    have b: "2 ^ nat (bitlen ?n - 1) \<le> ?n" "?n < 2 ^ nat (bitlen ?n)"
      using bitlen_bounds [OF n] by simp_all
    have lo: "pow2 (bitlen ?n - 1) \<le> q"
    proof -
      have "pow2 (bitlen ?n - 1) = of_int (2 ^ nat (bitlen ?n - 1))"
        using k by (simp add: pow2_nat)
      also have "\<dots> \<le> of_int ?n" using b(1) by (simp only: of_int_le_iff)
      also have "\<dots> \<le> q" by simp
      finally show ?thesis .
    qed
    have hi: "q < pow2 (bitlen ?n)"
    proof -
      have "?n + 1 \<le> 2 ^ nat (bitlen ?n)" using b(2) by simp
      then have "of_int (?n + 1) \<le> (of_int (2 ^ nat (bitlen ?n)) :: real)"
        by (simp only: of_int_le_iff)
      moreover have "q < of_int (?n + 1)" by linarith
      ultimately have "q < of_int (2 ^ nat (bitlen ?n))" by linarith
      then show ?thesis using k by (simp add: pow2_nat)
    qed
    show ?thesis using True lo hi by (simp add: ilog2_def)
  next
    case False
    let ?c = "\<lceil>1 / q\<rceil>"
    have y: "1 < 1 / q" using False assms by simp
    have c: "0 < ?c - 1" using y by linarith
    let ?k = "bitlen (?c - 1)"
    have k: "1 \<le> ?k"
      using c bitlen_eq_zero_iff [of "?c - 1"] bitlen_nonneg [of "?c - 1"] by linarith
    have b: "2 ^ nat (?k - 1) \<le> ?c - 1" "?c - 1 < 2 ^ nat ?k"
      using bitlen_bounds [OF c] by simp_all
    have up: "1 / q \<le> pow2 ?k"
    proof -
      have "?c \<le> 2 ^ nat ?k" using b(2) by simp
      then have "of_int ?c \<le> (of_int (2 ^ nat ?k) :: real)" by (simp only: of_int_le_iff)
      moreover have "1 / q \<le> of_int ?c" by simp
      ultimately have "1 / q \<le> of_int (2 ^ nat ?k)" by linarith
      then show ?thesis using k by (simp add: pow2_nat)
    qed
    have down: "pow2 (?k - 1) < 1 / q"
    proof -
      have "(of_int (2 ^ nat (?k - 1)) :: real) \<le> of_int (?c - 1)"
        using b(1) by (simp only: of_int_le_iff)
      moreover have "of_int (?c - 1) < 1 / q" by linarith
      ultimately have "of_int (2 ^ nat (?k - 1)) < 1 / q" by linarith
      then show ?thesis using k by (simp add: pow2_nat)
    qed
    have inv: "pow2 (- e) = 1 / pow2 e" for e
      by (simp add: pow2_powi power_int_minus field_simps)
    have lo: "pow2 (- ?k) \<le> q"
    proof -
      have "1 \<le> pow2 ?k * q" using up assms by (simp add: field_simps)
      then have "1 / pow2 ?k \<le> q" using pow2_pos [of ?k] by (simp add: field_simps)
      then show ?thesis by (simp add: inv)
    qed
    have hi: "q < pow2 (- ?k + 1)"
    proof -
      have "pow2 (?k - 1) * q < 1" using down assms by (simp add: field_simps)
      then have "q < 1 / pow2 (?k - 1)" using pow2_pos [of "?k - 1"] by (simp add: field_simps)
      then show ?thesis using inv [of "?k - 1"] by simp
    qed
    show ?thesis using False lo hi by (simp add: ilog2_def)
  qed
  then show "pow2 (ilog2 q) \<le> q" and "q < pow2 (ilog2 q + 1)" by simp_all
qed

lemma ilog2_unique:
  assumes "pow2 e \<le> q" and "q < pow2 (e + 1)"
  shows "ilog2 q = e"
proof -
  have q: "0 < q" using assms(1) pow2_pos [of e] by linarith
  have "pow2 (ilog2 q) < pow2 (e + 1)" using ilog2_bounds(1) [OF q] assms(2) by linarith
  then have a: "ilog2 q < e + 1" by (rule pow2_less_cancel)
  have "pow2 e < pow2 (ilog2 q + 1)" using ilog2_bounds(2) [OF q] assms(1) by linarith
  then have b: "e < ilog2 q + 1" by (rule pow2_less_cancel)
  from a b show ?thesis by simp
qed

lemma ilog2_mono:
  assumes "0 < p" and "p \<le> q"
  shows "ilog2 p \<le> ilog2 q"
proof -
  have q: "0 < q" using assms by simp
  have "pow2 (ilog2 p) < pow2 (ilog2 q + 1)"
    using ilog2_bounds(1) [OF assms(1)] ilog2_bounds(2) [OF q] assms(2) by linarith
  then have "ilog2 p < ilog2 q + 1" by (rule pow2_less_cancel)
  then show ?thesis by simp
qed

lemma round_half_even_of_int: "round_half_even (of_int k) = k"
  by (simp add: round_half_even_def)

lemma round_half_even_lower: "\<lfloor>x\<rfloor> \<le> round_half_even x"
  by (simp add: round_half_even_def Let_def)

lemma round_half_even_upper: "round_half_even x \<le> \<lfloor>x\<rfloor> + 1"
  by (simp add: round_half_even_def Let_def)

lemma round_half_even_le: "x \<le> of_int k \<Longrightarrow> round_half_even x \<le> k"
proof -
  assume h: "x \<le> of_int k"
  show ?thesis
  proof (cases "x = of_int k")
    case True then show ?thesis by (simp add: round_half_even_of_int)
  next
    case False
    with h have "x < of_int k" by simp
    then have "\<lfloor>x\<rfloor> < k" by (simp add: floor_less_iff)
    then show ?thesis using round_half_even_upper [of x] by linarith
  qed
qed

lemma round_half_even_ge: "of_int k \<le> x \<Longrightarrow> k \<le> round_half_even x"
proof -
  assume "of_int k \<le> x"
  then have "k \<le> \<lfloor>x\<rfloor>" by (simp add: le_floor_iff)
  then show ?thesis using round_half_even_lower [of x] by linarith
qed

lemma round_half_even_mono:
  assumes "x \<le> y"
  shows "round_half_even x \<le> round_half_even y"
proof (cases "\<lfloor>x\<rfloor> < \<lfloor>y\<rfloor>")
  case True
  then show ?thesis
    using round_half_even_upper [of x] round_half_even_lower [of y] by linarith
next
  case False
  then have eq: "\<lfloor>x\<rfloor> = \<lfloor>y\<rfloor>" using floor_mono [OF assms] by linarith
  have d: "x - of_int \<lfloor>y\<rfloor> \<le> y - of_int \<lfloor>y\<rfloor>" using assms by simp
  show ?thesis
    using d unfolding round_half_even_def Let_def eq
    by (auto split: if_splits)
qed

lemma pow2_split53: "pow2 (e + 1) = pow2 53 * pow2 (e - 52)"
proof -
  have "e + 1 = 53 + (e - 52)" by simp
  then show ?thesis by (simp only: pow2_add)
qed

lemma pow2_split52: "pow2 e = pow2 52 * pow2 (e - 52)"
proof -
  have "e = 52 + (e - 52)" by simp
  then show ?thesis using pow2_add [of 52 "e - 52"] by simp
qed

lemma pow2_53: "pow2 53 = of_int (2 ^ 53)"
  by (simp add: pow2_def)

lemma pow2_52: "pow2 52 = of_int (2 ^ 52)"
  by (simp add: pow2_def)

text \<open>The unit in the last place that \<open>round_mag\<close> uses for \<open>q\<close>.\<close>

lemma round_mag_unfold:
  "round_mag q = of_int (round_half_even (q / pow2 (max (ilog2 q) (- 1022) - 52))) *
     pow2 (max (ilog2 q) (- 1022) - 52)"
  by (simp add: round_mag_def Let_def)

lemma round_mag_nonneg:
  assumes "0 < q"
  shows "0 \<le> round_mag q"
proof -
  let ?u = "pow2 (max (ilog2 q) (- 1022) - 52)"
  have "of_int 0 \<le> q / ?u" using assms pow2_pos [of "max (ilog2 q) (- 1022) - 52"] by simp
  then have "0 \<le> round_half_even (q / ?u)" by (rule round_half_even_ge)
  then show ?thesis
    unfolding round_mag_unfold using pow2_pos [of "max (ilog2 q) (- 1022) - 52"] by simp
qed

lemma round_mag_upper:
  assumes "0 < q"
  shows "round_mag q \<le> pow2 (max (ilog2 q) (- 1022) + 1)"
proof -
  let ?E = "max (ilog2 q) (- 1022)"
  let ?u = "pow2 (?E - 52)"
  have u: "0 < ?u" by (rule pow2_pos)
  have "q < pow2 (ilog2 q + 1)" by (rule ilog2_bounds(2) [OF assms])
  also have "\<dots> \<le> pow2 (?E + 1)" by (rule pow2_mono) simp
  finally have "q \<le> pow2 (?E + 1)" by simp
  then have "q \<le> pow2 53 * ?u" by (simp only: pow2_split53)
  then have "q / ?u \<le> pow2 53" using u by (simp add: field_simps)
  then have "q / ?u \<le> of_int (2 ^ 53)" by (simp only: pow2_53)
  then have "round_half_even (q / ?u) \<le> 2 ^ 53" by (rule round_half_even_le)
  then have "(of_int (round_half_even (q / ?u)) :: real) \<le> of_int (2 ^ 53)"
    by (simp only: of_int_le_iff)
  then have "of_int (round_half_even (q / ?u)) * ?u \<le> of_int (2 ^ 53) * ?u"
    using u by (simp only: mult_le_cancel_right) simp
  also have "of_int (2 ^ 53) * ?u = pow2 (?E + 1)"
    by (simp only: pow2_split53 pow2_53)
  finally show ?thesis unfolding round_mag_unfold .
qed

lemma round_mag_lower:
  assumes "0 < q" and "- 1022 \<le> ilog2 q"
  shows "pow2 (ilog2 q) \<le> round_mag q"
proof -
  let ?E = "ilog2 q"
  have E: "max (ilog2 q) (- 1022) = ?E" using assms(2) by simp
  let ?u = "pow2 (?E - 52)"
  have u: "0 < ?u" by (rule pow2_pos)
  have s: "pow2 ?E = pow2 52 * ?u" by (rule pow2_split52)
  have "pow2 ?E \<le> q" by (rule ilog2_bounds(1) [OF assms(1)])
  then have "pow2 52 * ?u \<le> q" by (simp only: s [symmetric])
  then have "pow2 52 \<le> q / ?u" using u by (simp add: field_simps)
  then have "of_int (2 ^ 52) \<le> q / ?u" by (simp only: pow2_52)
  then have "2 ^ 52 \<le> round_half_even (q / ?u)" by (rule round_half_even_ge)
  then have "(of_int (2 ^ 52) :: real) \<le> of_int (round_half_even (q / ?u))"
    by (simp only: of_int_le_iff)
  then have "of_int (2 ^ 52) * ?u \<le> of_int (round_half_even (q / ?u)) * ?u"
    using u by (simp only: mult_le_cancel_right) simp
  moreover have "of_int (2 ^ 52) * ?u = pow2 ?E"
    by (simp only: s pow2_52)
  ultimately show ?thesis unfolding round_mag_unfold E by simp
qed

lemma round_mag_mono:
  assumes "0 < p" and "p \<le> q"
  shows "round_mag p \<le> round_mag q"
proof -
  have q: "0 < q" using assms by simp
  let ?P = "max (ilog2 p) (- 1022)"
  let ?Q = "max (ilog2 q) (- 1022)"
  have PQ: "?P \<le> ?Q" using ilog2_mono [OF assms] by simp
  show ?thesis
  proof (cases "?P = ?Q")
    case True
    let ?u = "pow2 (?Q - 52)"
    have u: "0 < ?u" by (rule pow2_pos)
    have "p / ?u \<le> q / ?u" using assms(2) u by (simp add: field_simps)
    then have "round_half_even (p / ?u) \<le> round_half_even (q / ?u)"
      by (rule round_half_even_mono)
    then have "(of_int (round_half_even (p / ?u)) :: real) \<le> of_int (round_half_even (q / ?u))"
      by (simp only: of_int_le_iff)
    then have "of_int (round_half_even (p / ?u)) * ?u \<le> of_int (round_half_even (q / ?u)) * ?u"
      using u by (simp only: mult_le_cancel_right) simp
    then show ?thesis unfolding round_mag_unfold True .
  next
    case False
    with PQ have lt: "?P + 1 \<le> ?Q" by simp
    then have n: "- 1022 \<le> ilog2 q" and e: "?Q = ilog2 q" by simp_all
    have "round_mag p \<le> pow2 (?P + 1)" by (rule round_mag_upper [OF assms(1)])
    also have "\<dots> \<le> pow2 ?Q" using lt by (rule pow2_mono)
    also have "\<dots> = pow2 (ilog2 q)" using e by simp
    also have "\<dots> \<le> round_mag q" by (rule round_mag_lower [OF q n])
    finally show ?thesis .
  qed
qed

lemma round_mag_exact:
  assumes "pow2 e \<le> q" and "q < pow2 (e + 1)" and "- 1022 \<le> e"
    and "q / pow2 (e - 52) = of_int k"
  shows "round_mag q = q"
proof -
  have i: "ilog2 q = e" by (rule ilog2_unique [OF assms(1,2)])
  have E: "max (ilog2 q) (- 1022) = e" using i assms(3) by simp
  have "round_mag q = of_int k * pow2 (e - 52)"
    unfolding round_mag_unfold E assms(4) by (simp add: round_half_even_of_int)
  also have "\<dots> = q" using assms(4) pow2_pos [of "e - 52"] by (simp add: field_simps)
  finally show ?thesis .
qed

lemma round_mag_1: "round_mag 1 = 1"
  by (rule round_mag_exact [of 0 _ "2 ^ 52"]) (simp_all add: pow2_def)

lemma round_mag_100: "round_mag 100 = 100"
  by (rule round_mag_exact [of 6 _ "100 * 2 ^ 46"]) (simp_all add: pow2_def)

lemmas double_eval = fdiv_def fmul_def fadd_def fsub_def fneg_def py_round_def dbl_def is_inf_def
  is_zero_def is_finite_def sign_def val_def nearest_def round_mag_def ilog2_def szero_def infty_def
  pow2_def round_half_even_def flt_def fgt_def feq_def fle_def py_min_def py_max_def Let_def
  compute_bitlen

lemma pow2_1024_gt: "100 < pow2 1024"
  by (simp add: pow2_def)

lemma nearest_not_nan: "nearest s q \<noteq> NaN"
  by (simp add: nearest_def szero_def infty_def Let_def)

lemma nearest_pos_cases:
  assumes "0 \<le> q"
  shows "nearest False q = PosInf \<or> (\<exists>r. nearest False q = Fin r \<and> 0 \<le> r)"
proof (cases "q = 0")
  case True
  then show ?thesis by (simp add: nearest_def szero_def)
next
  case False
  with assms have "0 < q" by simp
  then have "0 \<le> round_mag q" by (rule round_mag_nonneg)
  then show ?thesis using False by (simp add: nearest_def szero_def infty_def Let_def)
qed

lemma nearest_neg_cases:
  "nearest True q = NegInf \<or> nearest True q = NegZero \<or>
   (\<exists>r. nearest True q = Fin (- r) \<and> q \<noteq> 0 \<and> r = round_mag q \<and> r \<noteq> 0)"
  by (simp add: nearest_def szero_def infty_def Let_def)

lemma nearest_le:
  assumes "0 \<le> q" and "q \<le> c" and "round_mag c = c" and "c < pow2 1024"
  shows "\<exists>r. nearest False q = Fin r \<and> 0 \<le> r \<and> r \<le> c"
proof (cases "q = 0")
  case True
  then show ?thesis using assms by (simp add: nearest_def szero_def)
next
  case False
  with assms have q: "0 < q" by simp
  have "round_mag q \<le> round_mag c" by (rule round_mag_mono [OF q assms(2)])
  then have le: "round_mag q \<le> c" by (simp only: assms(3))
  have ge: "0 \<le> round_mag q" by (rule round_mag_nonneg [OF q])
  show ?thesis using False le ge assms(4) by (simp add: nearest_def szero_def Let_def)
qed

lemma nearest_ge:
  assumes "0 < c" and "c \<le> q" and "round_mag c = c"
  shows "nearest False q = PosInf \<or> (\<exists>r. nearest False q = Fin r \<and> c \<le> r)"
proof -
  have "round_mag c \<le> round_mag q" by (rule round_mag_mono [OF assms(1,2)])
  then have ge: "c \<le> round_mag q" by (simp only: assms(3))
  have "q \<noteq> 0" "round_mag q \<noteq> 0" using assms(1,2) ge by simp_all
  then show ?thesis using ge by (simp add: nearest_def infty_def Let_def)
qed

lemma fle_zero_iff:
  "fle (Fin 0) x \<longleftrightarrow> x = NegZero \<or> x = PosInf \<or> (\<exists>r. x = Fin r \<and> 0 \<le> r)"
  by (cases x) (auto simp add: fle_def flt_def feq_def val_def is_finite_def)

lemma fgt_zero_iff: "fgt x (Fin 0) \<longleftrightarrow> x = PosInf \<or> (\<exists>r. x = Fin r \<and> 0 < r)"
  by (cases x) (auto simp add: fgt_def flt_def val_def)



lemma py_round_zero: "py_round (Fin 0) n = Fin 0"
  by (simp add: py_round_def is_finite_def val_def sign_def nearest_def szero_def
      round_half_even_def)

lemma py_round_100: "py_round (Fin 100) 1 = Fin 100"
proof -
  have "round_half_even (100 * 10) = 1000"
    using round_half_even_of_int [of 1000] by simp
  then show ?thesis
    using round_mag_100 pow2_1024_gt
    by (simp add: py_round_def is_finite_def val_def sign_def nearest_def Let_def)
qed

section \<open>Bounds on the percentage\<close>

lemma fle_neg_100:
  "nearest True q = x \<Longrightarrow> 0 \<le> q \<Longrightarrow> fle x (Fin 100)"
proof -
  assume x: "nearest True q = x" and q: "0 \<le> q"
  consider "x = NegInf" | "x = NegZero" | r where "x = Fin (- r)" "q \<noteq> 0" "r = round_mag q"
    using nearest_neg_cases [of q] x by auto
  then show ?thesis
  proof cases
    case 1 then show ?thesis by (simp add: fle_def flt_def)
  next
    case 2 then show ?thesis by (simp add: fle_def flt_def val_def)
  next
    case 3
    then have "0 \<le> r" using round_mag_nonneg [of q] q by simp
    then show ?thesis using 3(1) by (simp add: fle_def flt_def val_def)
  qed
qed

lemma py_round_le_100:
  assumes "m \<noteq> NaN" and "\<not> flt (Fin 100) m"
  shows "fle (py_round m 1) (Fin 100)"
proof (cases m)
  case (Fin v)
  then have v: "v \<le> 100" using assms(2) by (simp add: flt_def val_def)
  show ?thesis
  proof (cases "v < 0")
    case True
    have "fle (nearest True (\<bar>of_int (round_half_even (v * 10 ^ 1))\<bar> / 10 ^ 1)) (Fin 100)"
      by (rule fle_neg_100 [OF refl]) simp
    then show ?thesis using Fin True by (simp add: py_round_def is_finite_def sign_def val_def)
  next
    case False
    then have "of_int 0 \<le> v * 10" by simp
    then have lo: "0 \<le> round_half_even (v * 10)" by (rule round_half_even_ge)
    have "v * 10 \<le> of_int 1000" using v by simp
    then have hi: "round_half_even (v * 10) \<le> 1000" by (rule round_half_even_le)
    let ?d = "\<bar>of_int (round_half_even (v * 10))\<bar> / (10 :: real)"
    have d0: "0 \<le> ?d" by simp
    have d1: "?d \<le> 100" using lo hi by simp
    obtain r where "nearest False ?d = Fin r" "r \<le> 100"
      using nearest_le [OF d0 d1 round_mag_100] pow2_1024_gt by auto
    then show ?thesis
      using Fin False
      by (auto simp add: py_round_def is_finite_def sign_def val_def fle_def flt_def feq_def)
  qed
next
  case NegZero
  then show ?thesis
    by (simp add: py_round_def is_finite_def sign_def val_def nearest_def szero_def fle_def flt_def
        round_half_even_def)
next
  case PosInf
  then show ?thesis using assms(2) by (simp add: flt_def)
next
  case NegInf
  then show ?thesis by (simp add: py_round_def is_finite_def fle_def flt_def)
next
  case NaN
  then show ?thesis using assms(1) by simp
qed

lemma py_min_100: "y \<noteq> NaN \<Longrightarrow> py_min y (Fin 100) \<noteq> NaN \<and> \<not> flt (Fin 100) (py_min y (Fin 100))"
  by (simp add: py_min_def flt_def)

lemma py_min_nan: "py_min NaN b = NaN"
  by (simp add: py_min_def flt_def)

lemma py_round_nan: "py_round NaN n = NaN"
  by (simp add: py_round_def is_finite_def)

lemma fmul_100_nan: "fmul x (Fin 100) = NaN \<longleftrightarrow> x = NaN"
  by (simp add: fmul_def is_zero_def is_inf_def infty_def nearest_not_nan)

lemma fdiv_nan:
  assumes "fgt g (Fin 0)"
  shows "fdiv c g = NaN \<longleftrightarrow> c = NaN \<or> (is_inf c \<and> g = PosInf)"
proof -
  consider "g = PosInf" | r where "g = Fin r" "0 < r"
    using assms by (auto simp add: fgt_zero_iff)
  then show ?thesis
  proof cases
    case 1
    then show ?thesis
      by (cases c) (simp_all add: fdiv_def is_inf_def is_zero_def infty_def szero_def)
  next
    case 2
    then show ?thesis
      by (cases c)
        (simp_all add: fdiv_def is_inf_def is_zero_def infty_def szero_def nearest_not_nan)
  qed
qed

text \<open>The percentage computed under \<^verbatim>\<open>goal > 0\<close>.\<close>

lemma percent_le_100:
  assumes "fgt g (Fin 0)"
  shows "py_round (py_min (fmul (fdiv c g) (Fin 100)) (Fin 100)) 1 = NaN \<or>
         fle (py_round (py_min (fmul (fdiv c g) (Fin 100)) (Fin 100)) 1) (Fin 100)"
proof (cases "fmul (fdiv c g) (Fin 100) = NaN")
  case True
  then show ?thesis by (simp add: py_min_nan py_round_nan)
next
  case False
  then show ?thesis using py_min_100 [OF False] py_round_le_100 by blast
qed

lemma percent_finite_le_100:
  assumes "fgt g (Fin 0)" and "is_finite c"
  shows "fle (py_round (py_min (fmul (fdiv c g) (Fin 100)) (Fin 100)) 1) (Fin 100)"
proof -
  have "\<not> is_inf c" "c \<noteq> NaN" using assms(2) by (auto simp add: is_finite_def is_inf_def)
  then have "fmul (fdiv c g) (Fin 100) \<noteq> NaN"
    using fdiv_nan [OF assms(1)] by (simp add: fmul_100_nan)
  then show ?thesis using py_min_100 py_round_le_100 by blast
qed

lemma nearest_pos_nonneg: "0 \<le> q \<Longrightarrow> fle (Fin 0) (nearest False q)"
  using nearest_pos_cases [of q] by (auto simp add: fle_zero_iff)

lemma fdiv_nonneg:
  assumes "fgt g (Fin 0)" and "fle (Fin 0) c" and "is_finite c"
  shows "fle (Fin 0) (fdiv c g)"
proof -
  consider "c = NegZero" | cv where "c = Fin cv" "0 \<le> cv"
    using assms(2,3) by (auto simp add: fle_zero_iff is_finite_def)
  then show ?thesis
  proof cases
    case 1
    consider "g = PosInf" | r where "g = Fin r" "0 < r"
      using assms(1) by (auto simp add: fgt_zero_iff)
    then show ?thesis
      using 1
      by cases
        (simp_all add: fdiv_def is_inf_def is_zero_def szero_def sign_def val_def nearest_def
          fle_zero_iff)
  next
    case 2
    consider "g = PosInf" | r where "g = Fin r" "0 < r"
      using assms(1) by (auto simp add: fgt_zero_iff)
    then show ?thesis
    proof cases
      case 1
      then show ?thesis
        using 2 by (simp add: fdiv_def is_inf_def szero_def sign_def fle_zero_iff)
    next
      case g: 2
      have "fle (Fin 0) (nearest False (cv / r))"
        by (rule nearest_pos_nonneg) (use 2(2) g(2) in simp)
      then show ?thesis
        using 2 g by (simp add: fdiv_def is_inf_def is_zero_def sign_def val_def)
    qed
  qed
qed

lemma fmul_100_nonneg:
  assumes "fle (Fin 0) x"
  shows "fle (Fin 0) (fmul x (Fin 100))"
proof -
  consider "x = NegZero" | "x = PosInf" | r where "x = Fin r" "0 \<le> r"
    using assms by (auto simp add: fle_zero_iff)
  then show ?thesis
  proof cases
    case 1
    then show ?thesis
      by (simp add: fmul_def is_inf_def is_zero_def sign_def val_def nearest_def szero_def
          fle_zero_iff)
  next
    case 2
    then show ?thesis
      by (simp add: fmul_def is_inf_def is_zero_def sign_def infty_def fle_zero_iff)
  next
    case 3
    have "fle (Fin 0) (nearest False (r * 100))"
      by (rule nearest_pos_nonneg) (use 3(2) in simp)
    then show ?thesis
      using 3 by (simp add: fmul_def is_inf_def sign_def val_def)
  qed
qed

lemma py_min_100_nonneg: "fle (Fin 0) y \<Longrightarrow> fle (Fin 0) (py_min y (Fin 100))"
  by (simp add: py_min_def fle_zero_iff)

lemma py_round_nonneg:
  assumes "fle (Fin 0) m"
  shows "fle (Fin 0) (py_round m n)"
proof -
  consider "m = NegZero" | "m = PosInf" | r where "m = Fin r" "0 \<le> r"
    using assms by (auto simp add: fle_zero_iff)
  then show ?thesis
  proof cases
    case 1
    then show ?thesis
      by (simp add: py_round_def is_finite_def sign_def val_def nearest_def szero_def
          round_half_even_def fle_zero_iff)
  next
    case 2
    then show ?thesis by (simp add: py_round_def is_finite_def fle_zero_iff)
  next
    case 3
    have "fle (Fin 0) (nearest False (\<bar>of_int (round_half_even (r * 10 ^ n))\<bar> / 10 ^ n))"
      by (rule nearest_pos_nonneg) simp
    then show ?thesis
      using 3 by (simp add: py_round_def is_finite_def sign_def val_def)
  qed
qed

lemma percent_nonneg:
  assumes "fgt g (Fin 0)" and "fle (Fin 0) c" and "is_finite c"
  shows "fle (Fin 0) (py_round (py_min (fmul (fdiv c g) (Fin 100)) (Fin 100)) 1)"
  by (intro py_round_nonneg py_min_100_nonneg fmul_100_nonneg fdiv_nonneg assms)

text \<open>Above the goal the percentage is exactly 100.\<close>

lemma fdiv_over:
  assumes "fgt c g" and "fgt g (Fin 0)"
  shows "fdiv c g = PosInf \<or> (\<exists>r. fdiv c g = Fin r \<and> 1 \<le> r)"
proof -
  obtain gv where g: "g = Fin gv" "0 < gv"
    using assms by (cases g) (auto simp add: fgt_def flt_def val_def)
  consider "c = PosInf" | cv where "c = Fin cv" "gv < cv"
    using assms(1) g by (cases c) (auto simp add: fgt_def flt_def val_def)
  then show ?thesis
  proof cases
    case 1
    then show ?thesis using g by (simp add: fdiv_def is_inf_def infty_def sign_def)
  next
    case 2
    have "1 \<le> cv / gv" using 2(2) g(2) by simp
    then have "nearest False (cv / gv) = PosInf \<or> (\<exists>r. nearest False (cv / gv) = Fin r \<and> 1 \<le> r)"
      using nearest_ge [of 1 "cv / gv"] round_mag_1 by simp
    moreover have "fdiv c g = nearest False (cv / gv)"
      using 2 g by (simp add: fdiv_def is_inf_def is_zero_def sign_def val_def)
    ultimately show ?thesis by simp
  qed
qed

lemma fmul_100_over:
  assumes "x = PosInf \<or> (\<exists>r. x = Fin r \<and> 1 \<le> r)"
  shows "fmul x (Fin 100) = PosInf \<or> (\<exists>r. fmul x (Fin 100) = Fin r \<and> 100 \<le> r)"
proof -
  consider "x = PosInf" | r where "x = Fin r" "1 \<le> r"
    using assms by auto
  then show ?thesis
  proof cases
    case 1
    then show ?thesis by (simp add: fmul_def is_inf_def is_zero_def infty_def sign_def)
  next
    case 2
    have "100 \<le> r * 100" using 2(2) by simp
    then have "nearest False (r * 100) = PosInf \<or>
               (\<exists>r'. nearest False (r * 100) = Fin r' \<and> 100 \<le> r')"
      using nearest_ge [of 100 "r * 100"] round_mag_100 by simp
    moreover have "fmul x (Fin 100) = nearest False (r * 100)"
      using 2 by (simp add: fmul_def is_inf_def sign_def val_def)
    ultimately show ?thesis by simp
  qed
qed

lemma py_min_100_over:
  assumes "y = PosInf \<or> (\<exists>r. y = Fin r \<and> 100 \<le> r)"
  shows "py_min y (Fin 100) = Fin 100"
  using assms by (auto simp add: py_min_def flt_def val_def)

lemma percent_over:
  assumes "fgt c g" and "fgt g (Fin 0)"
  shows "py_round (py_min (fmul (fdiv c g) (Fin 100)) (Fin 100)) 1 = Fin 100"
  by (simp only: py_min_100_over [OF fmul_100_over [OF fdiv_over [OF assms]]] py_round_100)

section \<open>Properties of the calculator\<close>

lemma add_nutrients_amount:
  "add_nutrients [''carb'' \<mapsto> a, ''protein'' \<mapsto> b, ''fat'' \<mapsto> c, ''calories'' \<mapsto> d]
     (calculate_nutrient_amount r) [''carb'', ''protein'', ''fat'', ''calories''] =
   Inr [''carb'' \<mapsto> fadd a (amount r ''carb''), ''protein'' \<mapsto> fadd b (amount r ''protein''),
        ''fat'' \<mapsto> fadd c (amount r ''fat''), ''calories'' \<mapsto> fadd d (amount r ''calories'')]"
  by (simp add: getitem_def calculate_nutrient_amount_def amount_def dict_get_def Let_def)

lemma sum_records_sums:
  "sum_records [''carb'' \<mapsto> a, ''protein'' \<mapsto> b, ''fat'' \<mapsto> c, ''calories'' \<mapsto> d] rs =
   Inr [''carb'' \<mapsto> foldl fadd a (map (\<lambda>r. amount r ''carb'') rs),
        ''protein'' \<mapsto> foldl fadd b (map (\<lambda>r. amount r ''protein'') rs),
        ''fat'' \<mapsto> foldl fadd c (map (\<lambda>r. amount r ''fat'') rs),
        ''calories'' \<mapsto> foldl fadd d (map (\<lambda>r. amount r ''calories'') rs)]"
proof (induction rs arbitrary: a b c d)
  case Nil
  show ?case by simp
next
  case (Cons r rs)
  show ?case
    by (simp only: sum_records.simps add_nutrients_amount sum.case Cons.IH list.map foldl_Cons)
qed

lemma amount_simps:
  "amount r ''carb'' = fdiv (fmul (rec_weight r) (rec_carb_ratio r)) (Fin 100)"
  "amount r ''protein'' = fdiv (fmul (rec_weight r) (rec_protein_ratio r)) (Fin 100)"
  "amount r ''fat'' = fdiv (fmul (rec_weight r) (rec_fat_ratio r)) (Fin 100)"
  by (simp_all add: amount_def dict_get_def calculate_nutrient_amount_def Let_def)




text \<open>
  Claim C6. For every user configuration, \<^verbatim>\<open>calculate_daily_goals\<close> returns for carb,
  protein and fat the body weight multiplied by that macro's coefficient per kilogram:
  the product of the two doubles, rounded to the nearest double.
\<close>

theorem calculate_daily_goals_formula:
  "calculate_daily_goals user_config =
     [''carb'' \<mapsto> fmul (cfg_weight user_config) (cfg_carb_per_kg user_config),
      ''protein'' \<mapsto> fmul (cfg_weight user_config) (cfg_protein_per_kg user_config),
      ''fat'' \<mapsto> fmul (cfg_weight user_config) (cfg_fat_per_kg user_config)]"
  by (simp add: calculate_daily_goals_def)

text \<open>
  A weight of 0.1 kg at 3 g per kg gives the goal 0.30000000000000004, which is not the
  double written 0.3; the default configuration, 60 kg at 0.8 g per kg, gives a fat goal
  of 48.
\<close>

theorem calculate_daily_goals_formula_witness:
  "calculate_daily_goals
     (default_config example_env\<lparr>cfg_weight := dbl (1 / 10)\<rparr>) ''carb'' =
     Some (dbl (30000000000000004 / 100000000000000000)) \<and>
   dbl (30000000000000004 / 100000000000000000) \<noteq> dbl (3 / 10) \<and>
   calculate_daily_goals (default_config example_env) ''fat'' = Some (Fin 48)"
proof -
  let ?cfg = "default_config example_env\<lparr>cfg_weight := dbl (1 / 10)\<rparr>"
  have a: "fmul (dbl (1 / 10)) (Fin 3) = dbl (30000000000000004 / 100000000000000000)"
    by (simp add: double_eval)
  have b: "dbl (30000000000000004 / 100000000000000000) \<noteq> dbl (3 / 10)"
    by (simp add: double_eval)
  have c: "fmul (Fin 60) (dbl (8 / 10)) = Fin 48"
    by (simp add: double_eval)
  have f: "cfg_weight ?cfg = dbl (1 / 10)" "cfg_carb_per_kg ?cfg = Fin 3"
    "cfg_weight (default_config example_env) = Fin 60"
    "cfg_fat_per_kg (default_config example_env) = dbl (8 / 10)"
    by (simp_all add: default_config_def)
  have g: "calculate_daily_goals ?cfg ''carb'' = Some (fmul (cfg_weight ?cfg) (cfg_carb_per_kg ?cfg))"
    using calculate_daily_goals_formula [of ?cfg] by simp
  have h: "calculate_daily_goals (default_config example_env) ''fat'' =
      Some (fmul (cfg_weight (default_config example_env))
              (cfg_fat_per_kg (default_config example_env)))"
    using calculate_daily_goals_formula [of "default_config example_env"] by simp
  from g have g': "calculate_daily_goals ?cfg ''carb'' =
      Some (dbl (30000000000000004 / 100000000000000000))"
    by (simp only: f a)
  from h have h': "calculate_daily_goals (default_config example_env) ''fat'' = Some (Fin 48)"
    by (simp only: f c)
  from g' b h' show ?thesis by (intro conjI)
qed

text \<open>
  Claim C3. For every date, \<^verbatim>\<open>get_daily_summary\<close> returns for carb, protein, fat and
  calories the sum of \<^verbatim>\<open>calculate_nutrient_amount\<close> over the records stored for that date
  (today when no date is given): the amounts are added one by one to 0 in the order of
  the query, each sum rounded to the nearest double. The loop never raises. When the
  date has no record, all four totals are 0.
\<close>

theorem get_daily_summary_sums:
  "get_daily_summary rows today target_date =
     Inr [''carb'' \<mapsto> foldl fadd (Fin 0) (map (\<lambda>r. amount r ''carb'')
            (filter (\<lambda>r. rec_date r = (case target_date of None \<Rightarrow> today | Some d \<Rightarrow> d)) rows)),
          ''protein'' \<mapsto> foldl fadd (Fin 0) (map (\<lambda>r. amount r ''protein'')
            (filter (\<lambda>r. rec_date r = (case target_date of None \<Rightarrow> today | Some d \<Rightarrow> d)) rows)),
          ''fat'' \<mapsto> foldl fadd (Fin 0) (map (\<lambda>r. amount r ''fat'')
            (filter (\<lambda>r. rec_date r = (case target_date of None \<Rightarrow> today | Some d \<Rightarrow> d)) rows)),
          ''calories'' \<mapsto> foldl fadd (Fin 0) (map (\<lambda>r. amount r ''calories'')
            (filter (\<lambda>r. rec_date r = (case target_date of None \<Rightarrow> today | Some d \<Rightarrow> d)) rows))]
   \<and> (filter (\<lambda>r. rec_date r = (case target_date of None \<Rightarrow> today | Some d \<Rightarrow> d)) rows = [] \<longrightarrow>
      get_daily_summary rows today target_date =
        Inr [''carb'' \<mapsto> Fin 0, ''protein'' \<mapsto> Fin 0, ''fat'' \<mapsto> Fin 0, ''calories'' \<mapsto> Fin 0])"
  by (simp add: get_daily_summary_def Let_def sum_records_sums)

text \<open>
  A day without records; and a day with three records of 100 g at 0.1, 0.2 and 0.3
  percent of carb, whose carb total is 0.6000000000000001.
\<close>

theorem get_daily_summary_sums_witness:
  "filter (\<lambda>r. rec_date r = (2024, 5, 18)) [example_record] = [] \<and>
   get_daily_summary [example_record] (2024, 5, 17) (Some (2024, 5, 18)) =
     Inr [''carb'' \<mapsto> Fin 0, ''protein'' \<mapsto> Fin 0, ''fat'' \<mapsto> Fin 0, ''calories'' \<mapsto> Fin 0] \<and>
   (\<exists>totals.
      get_daily_summary
        [example_record\<lparr>rec_carb_ratio := dbl (1 / 10)\<rparr>,
         example_record\<lparr>rec_carb_ratio := dbl (2 / 10)\<rparr>,
         example_record\<lparr>rec_carb_ratio := dbl (3 / 10)\<rparr>] (2024, 5, 17) None = Inr totals \<and>
      totals ''carb'' = Some (dbl (6000000000000001 / 10000000000000000)) \<and>
      totals ''protein'' = Some (Fin 21))"
proof -
  let ?r1 = "example_record\<lparr>rec_carb_ratio := dbl (1 / 10)\<rparr>"
  let ?r2 = "example_record\<lparr>rec_carb_ratio := dbl (2 / 10)\<rparr>"
  let ?r3 = "example_record\<lparr>rec_carb_ratio := dbl (3 / 10)\<rparr>"
  have e: "filter (\<lambda>r. rec_date r = (2024, 5, 18)) [example_record] = []"
    by (simp add: example_record_def)
  have d: "filter (\<lambda>r. rec_date r = (2024, 5, 17)) [?r1, ?r2, ?r3] = [?r1, ?r2, ?r3]"
    by (simp add: example_record_def)
  have w: "rec_weight ?r1 = Fin 100" "rec_weight ?r2 = Fin 100" "rec_weight ?r3 = Fin 100"
    "rec_carb_ratio ?r1 = dbl (1 / 10)" "rec_carb_ratio ?r2 = dbl (2 / 10)"
    "rec_carb_ratio ?r3 = dbl (3 / 10)"
    "rec_protein_ratio ?r1 = Fin 7" "rec_protein_ratio ?r2 = Fin 7" "rec_protein_ratio ?r3 = Fin 7"
    by (simp_all add: example_record_def)
  have a: "fadd (fadd (fadd (Fin 0) (fdiv (fmul (Fin 100) (dbl (1 / 10))) (Fin 100)))
                   (fdiv (fmul (Fin 100) (dbl (2 / 10))) (Fin 100)))
             (fdiv (fmul (Fin 100) (dbl (3 / 10))) (Fin 100)) =
           dbl (6000000000000001 / 10000000000000000)"
    by (simp add: double_eval)
  have p: "fadd (fadd (fadd (Fin 0) (fdiv (fmul (Fin 100) (Fin 7)) (Fin 100)))
                   (fdiv (fmul (Fin 100) (Fin 7)) (Fin 100)))
             (fdiv (fmul (Fin 100) (Fin 7)) (Fin 100)) = Fin 21"
    by (simp add: double_eval)
  have empty: "get_daily_summary [example_record] (2024, 5, 17) (Some (2024, 5, 18)) =
     Inr [''carb'' \<mapsto> Fin 0, ''protein'' \<mapsto> Fin 0, ''fat'' \<mapsto> Fin 0, ''calories'' \<mapsto> Fin 0]"
    using get_daily_summary_sums [of "[example_record]" "(2024, 5, 17)" "Some (2024, 5, 18)"] e
    by simp
  obtain totals where t: "get_daily_summary [?r1, ?r2, ?r3] (2024, 5, 17) None = Inr totals"
    and tc: "totals ''carb'' = Some (foldl fadd (Fin 0) (map (\<lambda>r. amount r ''carb'') [?r1, ?r2, ?r3]))"
    and tp: "totals ''protein'' =
       Some (foldl fadd (Fin 0) (map (\<lambda>r. amount r ''protein'') [?r1, ?r2, ?r3]))"
    using get_daily_summary_sums [of "[?r1, ?r2, ?r3]" "(2024, 5, 17)" None]
    by (simp only: option.case d) simp
  have tc': "totals ''carb'' = Some (dbl (6000000000000001 / 10000000000000000))"
    using tc by (simp only: list.map foldl_Cons foldl_Nil amount_simps w a)
  have tp': "totals ''protein'' = Some (Fin 21)"
    using tp by (simp only: list.map foldl_Cons foldl_Nil amount_simps w p)
  from e empty t tc' tp' show ?thesis by blast
qed

section \<open>Properties of the progress computation\<close>

lemma goals_dom: "calculate_daily_goals c n = Some g \<Longrightarrow> n \<in> {''carb'', ''protein'', ''fat''}"
  by (simp add: calculate_daily_goals_def split: if_splits)

lemma fgt_zero_not_zero: "fgt g (Fin 0) \<Longrightarrow> \<not> is_zero g"
  by (auto simp add: fgt_zero_iff is_zero_def)

lemma is_zero_not_fgt: "is_zero g \<Longrightarrow> \<not> fgt g (Fin 0)"
  by (auto simp add: fgt_zero_iff is_zero_def)

lemma percentage_total:
  "(if fgt goal (Fin 0)
    then (case truediv consumed goal of
            Inl e \<Rightarrow> Inl e
          | Inr q \<Rightarrow> Inr (py_min (fmul q (Fin 100)) (Fin 100)))
    else Inr (Fin 0)) =
   Inr (if fgt goal (Fin 0) then py_min (fmul (fdiv consumed goal) (Fin 100)) (Fin 100)
        else Fin 0)"
  by (simp add: truediv_def fgt_zero_not_zero)

lemma progress_entry_total:
  "progress_entry goals s n =
     Inr [''consumed'' \<mapsto> Num (py_round (dict_get s n (Fin 0)) 1),
          ''goal'' \<mapsto> Num (py_round (dict_get goals n (Fin 1)) 1),
          ''percentage'' \<mapsto> Num (py_round (if fgt (dict_get goals n (Fin 1)) (Fin 0)
              then py_min (fmul (fdiv (dict_get s n (Fin 0)) (dict_get goals n (Fin 1))) (Fin 100))
                     (Fin 100)
              else Fin 0) 1),
          ''remaining'' \<mapsto> Num (py_max (py_round (fsub (dict_get goals n (Fin 1))
              (dict_get s n (Fin 0))) 1) (Fin 0)),
          ''is_over'' \<mapsto> Bool (fgt (dict_get s n (Fin 0)) (dict_get goals n (Fin 1)))]"
  unfolding progress_entry_def Let_def percentage_total by simp

lemma get_progress_total:
  "get_progress c s =
     Inr [''carb'' \<mapsto> projr (progress_entry (calculate_daily_goals c) s ''carb''),
          ''protein'' \<mapsto> projr (progress_entry (calculate_daily_goals c) s ''protein''),
          ''fat'' \<mapsto> projr (progress_entry (calculate_daily_goals c) s ''fat'')]"
  by (simp add: get_progress_def Let_def progress_entry_total)

lemma progress_field_get_progress:
  "n \<in> {''carb'', ''protein'', ''fat''} \<Longrightarrow>
   progress_field (get_progress c s) n field =
     projr (progress_entry (calculate_daily_goals c) s n) field"
  by (auto simp add: progress_field_def get_progress_total)

lemma dict_get_Some: "d k = Some v \<Longrightarrow> dict_get d k dflt = v"
  by (simp add: dict_get_def)

lemma progress_field_percentage:
  assumes "calculate_daily_goals c n = Some goal" and "dict_get s n (Fin 0) = consumed"
  shows "progress_field (get_progress c s) n ''percentage'' =
     Some (Num (py_round (if fgt goal (Fin 0)
                          then py_min (fmul (fdiv consumed goal) (Fin 100)) (Fin 100)
                          else Fin 0) 1))"
  by (simp add: progress_field_get_progress [OF goals_dom [OF assms(1)]] progress_entry_total
      dict_get_Some [of "calculate_daily_goals c" n goal, OF assms(1)] assms(2))

lemma progress_field_remaining:
  assumes "calculate_daily_goals c n = Some goal" and "dict_get s n (Fin 0) = consumed"
  shows "progress_field (get_progress c s) n ''remaining'' =
     Some (Num (py_max (py_round (fsub goal consumed) 1) (Fin 0)))"
  by (simp add: progress_field_get_progress [OF goals_dom [OF assms(1)]] progress_entry_total
      dict_get_Some [of "calculate_daily_goals c" n goal, OF assms(1)] assms(2))

lemma progress_field_is_over:
  assumes "calculate_daily_goals c n = Some goal" and "dict_get s n (Fin 0) = consumed"
  shows "progress_field (get_progress c s) n ''is_over'' = Some (Bool (fgt consumed goal))"
  by (simp add: progress_field_get_progress [OF goals_dom [OF assms(1)]] progress_entry_total
      dict_get_Some [of "calculate_daily_goals c" n goal, OF assms(1)] assms(2))

lemma default_goals:
  "calculate_daily_goals (default_config e) ''carb'' = Some (Fin 180)"
  "calculate_daily_goals (default_config e) ''protein'' = Some (Fin 90)"
  "calculate_daily_goals (default_config e) ''fat'' = Some (Fin 48)"
proof -
  have m: "fmul (Fin 60) (Fin 3) = Fin 180" "fmul (Fin 60) (dbl (15 / 10)) = Fin 90"
    "fmul (Fin 60) (dbl (8 / 10)) = Fin 48"
    by (simp_all add: double_eval)
  have f: "cfg_weight (default_config e) = Fin 60" "cfg_carb_per_kg (default_config e) = Fin 3"
    "cfg_protein_per_kg (default_config e) = dbl (15 / 10)"
    "cfg_fat_per_kg (default_config e) = dbl (8 / 10)"
    by (simp_all add: default_config_def)
  have g: "calculate_daily_goals (default_config e) ''carb'' =
      Some (fmul (cfg_weight (default_config e)) (cfg_carb_per_kg (default_config e)))"
    "calculate_daily_goals (default_config e) ''protein'' =
      Some (fmul (cfg_weight (default_config e)) (cfg_protein_per_kg (default_config e)))"
    "calculate_daily_goals (default_config e) ''fat'' =
      Some (fmul (cfg_weight (default_config e)) (cfg_fat_per_kg (default_config e)))"
    by (simp_all add: calculate_daily_goals_def)
  show "calculate_daily_goals (default_config e) ''carb'' = Some (Fin 180)"
    using g(1) by (simp only: f m)
  show "calculate_daily_goals (default_config e) ''protein'' = Some (Fin 90)"
    using g(2) by (simp only: f m)
  show "calculate_daily_goals (default_config e) ''fat'' = Some (Fin 48)"
    using g(3) by (simp only: f m)
qed

text \<open>
  Claim C2, as stated: the percentage returned by \<^verbatim>\<open>get_progress\<close> equals
  min(consumed / goal * 100, 100) when the goal is positive. It does not: the view
  rounds the percentage to one decimal. With the default configuration the carb goal is
  180; 60 g consumed give 33.3, which is not equal to 60 / 180 * 100.
\<close>

theorem get_progress_percentage_counterexample:
  "calculate_daily_goals (default_config example_env) ''carb'' = Some (Fin 180) \<and>
   dict_get [''carb'' \<mapsto> Fin 60, ''protein'' \<mapsto> Fin 0, ''fat'' \<mapsto> Fin 0, ''calories'' \<mapsto> Fin 240]
     ''carb'' (Fin 0) = Fin 60 \<and>
   progress_field
     (get_progress (default_config example_env)
        [''carb'' \<mapsto> Fin 60, ''protein'' \<mapsto> Fin 0, ''fat'' \<mapsto> Fin 0, ''calories'' \<mapsto> Fin 240])
     ''carb'' ''percentage'' = Some (Num (dbl (333 / 10))) \<and>
   \<not> feq (dbl (333 / 10)) (py_min (fmul (fdiv (Fin 60) (Fin 180)) (Fin 100)) (Fin 100))"
proof -
  let ?s = "[''carb'' \<mapsto> Fin 60, ''protein'' \<mapsto> Fin 0, ''fat'' \<mapsto> Fin 0, ''calories'' \<mapsto> Fin 240]"
  have g: "calculate_daily_goals (default_config example_env) ''carb'' = Some (Fin 180)"
    by (rule default_goals)
  have c: "dict_get ?s ''carb'' (Fin 0) = Fin 60"
    by (simp add: dict_get_def)
  have p: "fgt (Fin 180) (Fin 0)" by (simp add: fgt_zero_iff)
  have r: "py_round (py_min (fmul (fdiv (Fin 60) (Fin 180)) (Fin 100)) (Fin 100)) 1 =
           dbl (333 / 10)"
    by (simp add: double_eval)
  have f: "progress_field (get_progress (default_config example_env) ?s) ''carb'' ''percentage'' =
           Some (Num (dbl (333 / 10)))"
    using progress_field_percentage [OF g c] by (simp only: p if_True r)
  have n: "\<not> feq (dbl (333 / 10)) (py_min (fmul (fdiv (Fin 60) (Fin 180)) (Fin 100)) (Fin 100))"
    by (simp add: double_eval)
  from g c f n show ?thesis by (intro conjI)
qed

text \<open>
  Claim C2, amended. For every user configuration and daily summary, and for each
  macro, the percentage returned by \<^verbatim>\<open>get_progress\<close> equals
  round(min(consumed / goal * 100, 100), 1) when the goal is greater than 0, where the
  quotient and the product are rounded to the nearest double before the rounding to one
  decimal, and equals 0 when the goal is 0. Here \<open>goal\<close> is the macro's entry in
  \<^verbatim>\<open>calculate_daily_goals\<close> and \<open>consumed\<close> its entry in the summary, 0 when the summary
  has none.
\<close>

theorem get_progress_percentage:
  assumes "calculate_daily_goals user_config nutrient = Some goal"
    and "dict_get daily_summary nutrient (Fin 0) = consumed"
  shows "(fgt goal (Fin 0) \<longrightarrow>
            progress_field (get_progress user_config daily_summary) nutrient ''percentage'' =
              Some (Num (py_round (py_min (fmul (fdiv consumed goal) (Fin 100)) (Fin 100)) 1))) \<and>
         (is_zero goal \<longrightarrow>
            progress_field (get_progress user_config daily_summary) nutrient ''percentage'' =
              Some (Num (Fin 0)))"
  by (simp add: progress_field_percentage [OF assms] py_round_zero is_zero_not_fgt)

text \<open>
  With the default configuration, 51.75 g of carb against the goal of 180 are 28.7
  percent: the quotient times 100 is 28.749999999999996. A stored weight of 0 gives a
  goal of 0 and 0 percent.
\<close>

theorem get_progress_percentage_witness:
  "calculate_daily_goals (default_config example_env) ''carb'' = Some (Fin 180) \<and>
   fgt (Fin 180) (Fin 0) \<and>
   progress_field
     (get_progress (default_config example_env) [''carb'' \<mapsto> dbl (5175 / 100)])
     ''carb'' ''percentage'' = Some (Num (dbl (287 / 10))) \<and>
   calculate_daily_goals (default_config example_env\<lparr>cfg_weight := Fin 0\<rparr>) ''carb'' =
     Some (Fin 0) \<and>
   is_zero (Fin 0) \<and>
   progress_field
     (get_progress (default_config example_env\<lparr>cfg_weight := Fin 0\<rparr>)
        [''carb'' \<mapsto> dbl (5175 / 100)])
     ''carb'' ''percentage'' = Some (Num (Fin 0))"
proof -
  let ?s = "[''carb'' \<mapsto> dbl (5175 / 100)]"
  let ?z = "default_config example_env\<lparr>cfg_weight := Fin 0\<rparr>"
  have g: "calculate_daily_goals (default_config example_env) ''carb'' = Some (Fin 180)"
    by (rule default_goals)
  have c: "dict_get ?s ''carb'' (Fin 0) = dbl (5175 / 100)"
    by (simp add: dict_get_def)
  have p: "fgt (Fin 180) (Fin 0)" by (simp add: fgt_zero_iff)
  have r: "py_round (py_min (fmul (fdiv (dbl (5175 / 100)) (Fin 180)) (Fin 100)) (Fin 100)) 1 =
           dbl (287 / 10)"
    by (simp add: double_eval)
  have f: "progress_field (get_progress (default_config example_env) ?s) ''carb'' ''percentage'' =
           Some (Num (dbl (287 / 10)))"
    using get_progress_percentage [OF g c] p by (simp only: r simp_thms)
  have m: "fmul (Fin 0) (Fin 3) = Fin 0" by (simp add: double_eval)
  have gz: "calculate_daily_goals ?z ''carb'' = Some (Fin 0)"
    by (simp add: calculate_daily_goals_def default_config_def m)
  have z: "is_zero (Fin 0)" by (simp add: is_zero_def)
  have fz: "progress_field (get_progress ?z ?s) ''carb'' ''percentage'' = Some (Num (Fin 0))"
    using get_progress_percentage [OF gz c] z by (simp only: simp_thms)
  from g p f gz z fz show ?thesis by (intro conjI)
qed

text \<open>
  Claim C4, as stated: the percentage lies in the closed interval from 0 to 100 for
  every user configuration and daily summary. The view caps the percentage at 100 and
  has no lower bound: a summary with a negative consumed amount (a record with a
  negative weight, which \<^verbatim>\<open>add_record\<close> accepts) gives a negative percentage.
\<close>

theorem percentage_capped_counterexample:
  "calculate_daily_goals (default_config example_env) ''carb'' = Some (Fin 180) \<and>
   dict_get [''carb'' \<mapsto> Fin (- 18), ''protein'' \<mapsto> Fin 0, ''fat'' \<mapsto> Fin 0,
             ''calories'' \<mapsto> Fin (- 72)] ''carb'' (Fin 0) = Fin (- 18) \<and>
   progress_field
     (get_progress (default_config example_env)
        [''carb'' \<mapsto> Fin (- 18), ''protein'' \<mapsto> Fin 0, ''fat'' \<mapsto> Fin 0,
         ''calories'' \<mapsto> Fin (- 72)])
     ''carb'' ''percentage'' = Some (Num (Fin (- 10))) \<and>
   \<not> fle (Fin 0) (Fin (- 10))"
proof -
  let ?s = "[''carb'' \<mapsto> Fin (- 18), ''protein'' \<mapsto> Fin 0, ''fat'' \<mapsto> Fin 0,
             ''calories'' \<mapsto> Fin (- 72)]"
  have g: "calculate_daily_goals (default_config example_env) ''carb'' = Some (Fin 180)"
    by (rule default_goals)
  have c: "dict_get ?s ''carb'' (Fin 0) = Fin (- 18)"
    by (simp add: dict_get_def)
  have p: "fgt (Fin 180) (Fin 0)" by (simp add: fgt_zero_iff)
  have r: "py_round (py_min (fmul (fdiv (Fin (- 18)) (Fin 180)) (Fin 100)) (Fin 100)) 1 =
           Fin (- 10)"
    by (simp add: double_eval)
  have f: "progress_field (get_progress (default_config example_env) ?s) ''carb'' ''percentage'' =
           Some (Num (Fin (- 10)))"
    using progress_field_percentage [OF g c] by (simp only: p if_True r)
  have n: "\<not> fle (Fin 0) (Fin (- 10))"
    by (simp add: fle_zero_iff)
  from g c f n show ?thesis by (intro conjI)
qed

text \<open>
  Claim C4, amended. For every user configuration and daily summary, and for each
  macro, the percentage returned by \<^verbatim>\<open>get_progress\<close> is NaN or at most 100; it is at most
  100 whenever the consumed amount is finite; and it is at least 0 whenever the consumed
  amount is finite and not negative, or the goal is not greater than 0. When consumed
  exceeds the goal, \<open>is_over\<close> is true while the percentage stays capped: it is exactly
  100 for a positive goal.
\<close>

theorem percentage_capped:
  assumes "calculate_daily_goals user_config nutrient = Some goal"
    and "dict_get daily_summary nutrient (Fin 0) = consumed"
  shows "\<exists>p. progress_field (get_progress user_config daily_summary) nutrient ''percentage'' =
               Some (Num p) \<and>
             (p = NaN \<or> fle p (Fin 100)) \<and>
             (is_finite consumed \<longrightarrow> fle p (Fin 100)) \<and>
             ((fle (Fin 0) consumed \<and> is_finite consumed) \<or> \<not> fgt goal (Fin 0) \<longrightarrow>
                fle (Fin 0) p) \<and>
             (fgt consumed goal \<longrightarrow>
                progress_field (get_progress user_config daily_summary) nutrient ''is_over'' =
                  Some (Bool True) \<and>
                (fgt goal (Fin 0) \<longrightarrow> p = Fin 100))"
proof (cases "fgt goal (Fin 0)")
  case True
  let ?p = "py_round (py_min (fmul (fdiv consumed goal) (Fin 100)) (Fin 100)) 1"
  have p: "progress_field (get_progress user_config daily_summary) nutrient ''percentage'' =
             Some (Num ?p)"
    using progress_field_percentage [OF assms] True by simp
  have a: "?p = NaN \<or> fle ?p (Fin 100)" by (rule percent_le_100 [OF True])
  have b: "fle ?p (Fin 100)" if "is_finite consumed"
    by (rule percent_finite_le_100 [OF True that])
  have c: "fle (Fin 0) ?p" if "fle (Fin 0) consumed" "is_finite consumed"
    by (rule percent_nonneg [OF True that])
  have d: "?p = Fin 100" if "fgt consumed goal"
    by (rule percent_over [OF that True])
  show ?thesis
    using p a b c d True progress_field_is_over [OF assms]
    by (intro exI [of _ ?p]) simp
next
  case False
  have p: "progress_field (get_progress user_config daily_summary) nutrient ''percentage'' =
             Some (Num (Fin 0))"
    using progress_field_percentage [OF assms] False by (simp add: py_round_zero)
  have "fle (Fin 0) (Fin 100)" "fle (Fin 0) (Fin 0)"
    by (simp_all add: fle_def flt_def feq_def val_def)
  then show ?thesis
    using p False progress_field_is_over [OF assms]
    by (intro exI [of _ "Fin 0"]) simp
qed

text \<open>
  With the default configuration the fat goal is 48; 60 g consumed give 100 percent and
  \<open>is_over\<close>. A stored weight of 0 gives a goal of 0, which is not greater than 0.
  An infinite weight gives an infinite goal, and an infinite consumed amount then gives
  the percentage NaN. A weight of 40 kg at 0.6 g per kg gives the goal 24.0, and 24 g
  consumed are not over it.
\<close>

theorem percentage_capped_witness:
  "calculate_daily_goals (default_config example_env) ''fat'' = Some (Fin 48) \<and>
   is_finite (Fin 60) \<and> fle (Fin 0) (Fin 60) \<and> fgt (Fin 60) (Fin 48) \<and> fgt (Fin 48) (Fin 0) \<and>
   progress_field
     (get_progress (default_config example_env) [''fat'' \<mapsto> Fin 60])
     ''fat'' ''percentage'' = Some (Num (Fin 100)) \<and>
   progress_field
     (get_progress (default_config example_env) [''fat'' \<mapsto> Fin 60])
     ''fat'' ''is_over'' = Some (Bool True) \<and>
   calculate_daily_goals (default_config example_env\<lparr>cfg_weight := Fin 0\<rparr>) ''fat'' =
     Some (Fin 0) \<and>
   \<not> fgt (Fin 0) (Fin 0) \<and>
   fle (Fin 0) (Fin 0) \<and>
   calculate_daily_goals (default_config example_env\<lparr>cfg_weight := PosInf\<rparr>) ''fat'' =
     Some PosInf \<and>
   progress_field
     (get_progress (default_config example_env\<lparr>cfg_weight := PosInf\<rparr>) [''fat'' \<mapsto> PosInf])
     ''fat'' ''percentage'' = Some (Num NaN) \<and>
   calculate_daily_goals
     (default_config example_env\<lparr>cfg_weight := Fin 40, cfg_carb_per_kg := dbl (6 / 10)\<rparr>)
     ''carb'' = Some (Fin 24) \<and>
   progress_field
     (get_progress
        (default_config example_env\<lparr>cfg_weight := Fin 40, cfg_carb_per_kg := dbl (6 / 10)\<rparr>)
        [''carb'' \<mapsto> Fin 24])
     ''carb'' ''is_over'' = Some (Bool False)"
proof -
  let ?s = "[''fat'' \<mapsto> Fin 60]"
  have g: "calculate_daily_goals (default_config example_env) ''fat'' = Some (Fin 48)"
    by (rule default_goals)
  have c: "dict_get ?s ''fat'' (Fin 0) = Fin 60"
    by (simp add: dict_get_def)
  have h: "is_finite (Fin 60)" "fle (Fin 0) (Fin 60)" "fgt (Fin 60) (Fin 48)"
    "fgt (Fin 48) (Fin 0)" "\<not> fgt (Fin 0) (Fin 0)" "fle (Fin 0) (Fin 0)"
    by (simp_all add: is_finite_def fle_zero_iff fgt_zero_iff fgt_def flt_def val_def)
  have m: "fmul (Fin 0) (dbl (8 / 10)) = Fin 0" by (simp add: double_eval)
  have f0: "cfg_weight (default_config example_env\<lparr>cfg_weight := Fin 0\<rparr>) = Fin 0"
    "cfg_fat_per_kg (default_config example_env\<lparr>cfg_weight := Fin 0\<rparr>) = dbl (8 / 10)"
    by (simp_all add: default_config_def)
  have "calculate_daily_goals (default_config example_env\<lparr>cfg_weight := Fin 0\<rparr>) ''fat'' =
      Some (fmul (cfg_weight (default_config example_env\<lparr>cfg_weight := Fin 0\<rparr>))
        (cfg_fat_per_kg (default_config example_env\<lparr>cfg_weight := Fin 0\<rparr>)))"
    by (simp add: calculate_daily_goals_def)
  then have gz: "calculate_daily_goals (default_config example_env\<lparr>cfg_weight := Fin 0\<rparr>) ''fat'' =
      Some (Fin 0)"
    by (simp only: f0 m)
  obtain p where p: "progress_field (get_progress (default_config example_env) ?s)
        ''fat'' ''percentage'' = Some (Num p)"
    and o: "fgt (Fin 60) (Fin 48) \<longrightarrow>
        progress_field (get_progress (default_config example_env) ?s) ''fat'' ''is_over'' =
          Some (Bool True) \<and> (fgt (Fin 48) (Fin 0) \<longrightarrow> p = Fin 100)"
    using percentage_capped [OF g c] by blast
  from o h have p100: "p = Fin 100"
    and over: "progress_field (get_progress (default_config example_env) ?s) ''fat'' ''is_over'' =
          Some (Bool True)"
    by simp_all
  from p p100 have pf: "progress_field (get_progress (default_config example_env) ?s)
        ''fat'' ''percentage'' = Some (Num (Fin 100))" by simp
  let ?ci = "default_config example_env\<lparr>cfg_weight := PosInf\<rparr>"
  have mi: "fmul PosInf (dbl (8 / 10)) = PosInf" by (simp add: double_eval)
  have fi: "cfg_weight ?ci = PosInf" "cfg_fat_per_kg ?ci = dbl (8 / 10)"
    by (simp_all add: default_config_def)
  have "calculate_daily_goals ?ci ''fat'' = Some (fmul (cfg_weight ?ci) (cfg_fat_per_kg ?ci))"
    by (simp add: calculate_daily_goals_def)
  then have gi: "calculate_daily_goals ?ci ''fat'' = Some PosInf"
    by (simp only: fi mi)
  have di: "dict_get [''fat'' \<mapsto> PosInf] ''fat'' (Fin 0) = PosInf"
    by (simp add: dict_get_def)
  have ri: "py_round (if fgt PosInf (Fin 0)
                      then py_min (fmul (fdiv PosInf PosInf) (Fin 100)) (Fin 100)
                      else Fin 0) 1 = NaN"
    by (simp add: double_eval)
  have pi: "progress_field (get_progress ?ci [''fat'' \<mapsto> PosInf]) ''fat'' ''percentage'' =
      Some (Num NaN)"
    using progress_field_percentage [OF gi di] by (simp only: ri)
  let ?cb = "default_config example_env\<lparr>cfg_weight := Fin 40, cfg_carb_per_kg := dbl (6 / 10)\<rparr>"
  have mb: "fmul (Fin 40) (dbl (6 / 10)) = Fin 24" by (simp add: double_eval)
  have fb: "cfg_weight ?cb = Fin 40" "cfg_carb_per_kg ?cb = dbl (6 / 10)"
    by (simp_all add: default_config_def)
  have "calculate_daily_goals ?cb ''carb'' = Some (fmul (cfg_weight ?cb) (cfg_carb_per_kg ?cb))"
    by (simp add: calculate_daily_goals_def)
  then have gb: "calculate_daily_goals ?cb ''carb'' = Some (Fin 24)"
    by (simp only: fb mb)
  have db: "dict_get [''carb'' \<mapsto> Fin 24] ''carb'' (Fin 0) = Fin 24"
    by (simp add: dict_get_def)
  have ob: "fgt (Fin 24) (Fin 24) = False" by (simp add: fgt_def flt_def)
  have ib: "progress_field (get_progress ?cb [''carb'' \<mapsto> Fin 24]) ''carb'' ''is_over'' =
      Some (Bool False)"
    using progress_field_is_over [OF gb db] by (simp only: ob)
  from g h pf over gz gi pi gb ib show ?thesis by (intro conjI)
qed

text \<open>
  Claim C5, as stated: remaining = max(goal - consumed, 0). The view rounds the
  difference to one decimal before it takes the maximum: with a carb goal of 180 and
  179.96 g consumed the remaining amount is 0, which is not equal to 180 - 179.96.
\<close>

theorem get_progress_remaining_counterexample:
  "calculate_daily_goals (default_config example_env) ''carb'' = Some (Fin 180) \<and>
   dict_get [''carb'' \<mapsto> dbl (17996 / 100)] ''carb'' (Fin 0) = dbl (17996 / 100) \<and>
   progress_field
     (get_progress (default_config example_env) [''carb'' \<mapsto> dbl (17996 / 100)])
     ''carb'' ''remaining'' = Some (Num (Fin 0)) \<and>
   \<not> feq (Fin 0) (py_max (fsub (Fin 180) (dbl (17996 / 100))) (Fin 0))"
proof -
  let ?s = "[''carb'' \<mapsto> dbl (17996 / 100)]"
  have g: "calculate_daily_goals (default_config example_env) ''carb'' = Some (Fin 180)"
    by (rule default_goals)
  have c: "dict_get ?s ''carb'' (Fin 0) = dbl (17996 / 100)"
    by (simp add: dict_get_def)
  have r: "py_max (py_round (fsub (Fin 180) (dbl (17996 / 100))) 1) (Fin 0) = Fin 0"
    by (simp add: double_eval)
  have f: "progress_field (get_progress (default_config example_env) ?s) ''carb'' ''remaining'' =
           Some (Num (Fin 0))"
    using progress_field_remaining [OF g c] by (simp only: r)
  have n: "\<not> feq (Fin 0) (py_max (fsub (Fin 180) (dbl (17996 / 100))) (Fin 0))"
    by (simp add: double_eval)
  from g c f n show ?thesis by (intro conjI)
qed

text \<open>
  Claim C5, amended. For every user configuration and daily summary, and for each
  macro, \<^verbatim>\<open>get_progress\<close> returns remaining = max(round(goal - consumed, 1), 0), where the
  difference is rounded to the nearest double before the rounding to one decimal, and
  is_over = (consumed > goal), the comparison of the two doubles before any rounding to
  one decimal.
\<close>

theorem get_progress_remaining:
  assumes "calculate_daily_goals user_config nutrient = Some goal"
    and "dict_get daily_summary nutrient (Fin 0) = consumed"
  shows "progress_field (get_progress user_config daily_summary) nutrient ''remaining'' =
           Some (Num (py_max (py_round (fsub goal consumed) 1) (Fin 0))) \<and>
         progress_field (get_progress user_config daily_summary) nutrient ''is_over'' =
           Some (Bool (fgt consumed goal))"
  by (simp add: progress_field_remaining [OF assms] progress_field_is_over [OF assms])

text \<open>
  With the default configuration the carb goal is 180; 0.15 g consumed leave 179.8,
  since the double 180 - 0.15 lies below 179.85. A weight of 40.4 kg at 1.5 g per kg
  gives the protein goal 60.599999999999994, and 60.6 g consumed are over it.
\<close>

theorem get_progress_remaining_witness:
  "calculate_daily_goals (default_config example_env) ''carb'' = Some (Fin 180) \<and>
   dict_get [''carb'' \<mapsto> dbl (15 / 100)] ''carb'' (Fin 0) = dbl (15 / 100) \<and>
   progress_field
     (get_progress (default_config example_env) [''carb'' \<mapsto> dbl (15 / 100)])
     ''carb'' ''remaining'' = Some (Num (dbl (1798 / 10))) \<and>
   progress_field
     (get_progress (default_config example_env) [''carb'' \<mapsto> dbl (15 / 100)])
     ''carb'' ''is_over'' = Some (Bool False) \<and>
   calculate_daily_goals (default_config example_env\<lparr>cfg_weight := dbl (404 / 10)\<rparr>)
     ''protein'' = Some (dbl (60599999999999994 / 1000000000000000)) \<and>
   progress_field
     (get_progress (default_config example_env\<lparr>cfg_weight := dbl (404 / 10)\<rparr>)
        [''protein'' \<mapsto> dbl (606 / 10)])
     ''protein'' ''is_over'' = Some (Bool True)"
proof -
  let ?s = "[''carb'' \<mapsto> dbl (15 / 100)]"
  have g: "calculate_daily_goals (default_config example_env) ''carb'' = Some (Fin 180)"
    by (rule default_goals)
  have c: "dict_get ?s ''carb'' (Fin 0) = dbl (15 / 100)"
    by (simp add: dict_get_def)
  have r: "py_max (py_round (fsub (Fin 180) (dbl (15 / 100))) 1) (Fin 0) = dbl (1798 / 10)"
    by (simp add: double_eval)
  have o: "fgt (dbl (15 / 100)) (Fin 180) = False"
    by (simp add: double_eval)
  have f: "progress_field (get_progress (default_config example_env) ?s) ''carb'' ''remaining'' =
             Some (Num (dbl (1798 / 10)))"
    and i: "progress_field (get_progress (default_config example_env) ?s) ''carb'' ''is_over'' =
             Some (Bool False)"
    using get_progress_remaining [OF g c] by (simp_all only: r o)
  let ?cw = "default_config example_env\<lparr>cfg_weight := dbl (404 / 10)\<rparr>"
  have mw: "fmul (dbl (404 / 10)) (dbl (15 / 10)) = dbl (60599999999999994 / 1000000000000000)"
    by (simp add: double_eval)
  have fw: "cfg_weight ?cw = dbl (404 / 10)" "cfg_protein_per_kg ?cw = dbl (15 / 10)"
    by (simp_all add: default_config_def)
  have "calculate_daily_goals ?cw ''protein'' =
      Some (fmul (cfg_weight ?cw) (cfg_protein_per_kg ?cw))"
    by (simp add: calculate_daily_goals_def)
  then have gw: "calculate_daily_goals ?cw ''protein'' =
      Some (dbl (60599999999999994 / 1000000000000000))"
    by (simp only: fw mw)
  have dw: "dict_get [''protein'' \<mapsto> dbl (606 / 10)] ''protein'' (Fin 0) = dbl (606 / 10)"
    by (simp add: dict_get_def)
  have ow: "fgt (dbl (606 / 10)) (dbl (60599999999999994 / 1000000000000000)) = True"
    by (simp add: double_eval)
  have iw: "progress_field (get_progress ?cw [''protein'' \<mapsto> dbl (606 / 10)])
      ''protein'' ''is_over'' = Some (Bool True)"
    using get_progress_remaining [OF gw dw] by (simp only: ow)
  from g c f i gw iw show ?thesis by (intro conjI)
qed

text \<open>
  Claim C9. \<^verbatim>\<open>get_progress\<close> never divides by zero: in the model a division by zero is
  the value \<open>Inl ZeroDivisionError\<close>, and \<^verbatim>\<open>get_progress\<close> returns a dict for every user
  configuration and daily summary. Whenever a macro's goal is not strictly positive
  (zero, or negative as with a negative stored weight), its percentage is 0.
\<close>

theorem get_progress_no_zero_division:
  "\<exists>progress. get_progress user_config daily_summary = Inr progress \<and>
     (\<forall>nutrient goal. calculate_daily_goals user_config nutrient = Some goal \<and>
        \<not> fgt goal (Fin 0) \<longrightarrow>
        progress_field (Inr progress) nutrient ''percentage'' = Some (Num (Fin 0)))"
proof -
  obtain progress where p: "get_progress user_config daily_summary = Inr progress"
    using get_progress_total [of user_config daily_summary] by blast
  have "progress_field (Inr progress) nutrient ''percentage'' = Some (Num (Fin 0))"
    if "calculate_daily_goals user_config nutrient = Some goal" and "\<not> fgt goal (Fin 0)"
    for nutrient goal
    using progress_field_percentage [OF that(1) refl, of daily_summary] that(2)
    by (simp add: p py_round_zero)
  with p show ?thesis by blast
qed

text \<open>
  A stored weight of 0 gives a goal of 0, a stored weight of -60 a fat goal of -48; both
  percentages are 0.
\<close>

theorem get_progress_no_zero_division_witness:
  "calculate_daily_goals (default_config example_env\<lparr>cfg_weight := Fin 0\<rparr>) ''carb'' =
     Some (Fin 0) \<and>
   \<not> fgt (Fin 0) (Fin 0) \<and>
   calculate_daily_goals (default_config example_env\<lparr>cfg_weight := Fin (- 60)\<rparr>) ''fat'' =
     Some (Fin (- 48)) \<and>
   \<not> fgt (Fin (- 48)) (Fin 0) \<and>
   progress_field
     (get_progress (default_config example_env\<lparr>cfg_weight := Fin 0\<rparr>)
        [''carb'' \<mapsto> Fin 75, ''protein'' \<mapsto> Fin 7, ''fat'' \<mapsto> Fin 1, ''calories'' \<mapsto> Fin 337])
     ''carb'' ''percentage'' = Some (Num (Fin 0)) \<and>
   progress_field
     (get_progress (default_config example_env\<lparr>cfg_weight := Fin (- 60)\<rparr>)
        [''carb'' \<mapsto> Fin 75, ''protein'' \<mapsto> Fin 7, ''fat'' \<mapsto> Fin 1, ''calories'' \<mapsto> Fin 337])
     ''fat'' ''percentage'' = Some (Num (Fin 0))"
proof -
  let ?z = "default_config example_env\<lparr>cfg_weight := Fin 0\<rparr>"
  let ?n = "default_config example_env\<lparr>cfg_weight := Fin (- 60)\<rparr>"
  let ?s = "[''carb'' \<mapsto> Fin 75, ''protein'' \<mapsto> Fin 7, ''fat'' \<mapsto> Fin 1, ''calories'' \<mapsto> Fin 337]"
  have m: "fmul (Fin 0) (Fin 3) = Fin 0" "fmul (Fin (- 60)) (dbl (8 / 10)) = Fin (- 48)"
    by (simp_all add: double_eval)
  have w: "cfg_weight ?z = Fin 0" "cfg_carb_per_kg ?z = Fin 3"
    "cfg_weight ?n = Fin (- 60)" "cfg_fat_per_kg ?n = dbl (8 / 10)"
    by (simp_all add: default_config_def)
  have "calculate_daily_goals ?z ''carb'' = Some (fmul (cfg_weight ?z) (cfg_carb_per_kg ?z))"
    by (simp add: calculate_daily_goals_def)
  then have g0: "calculate_daily_goals ?z ''carb'' = Some (Fin 0)"
    by (simp only: w m)
  have "calculate_daily_goals ?n ''fat'' = Some (fmul (cfg_weight ?n) (cfg_fat_per_kg ?n))"
    by (simp add: calculate_daily_goals_def)
  then have g1: "calculate_daily_goals ?n ''fat'' = Some (Fin (- 48))"
    by (simp only: w m)
  have n0: "\<not> fgt (Fin 0) (Fin 0)" and n1: "\<not> fgt (Fin (- 48)) (Fin 0)"
    by (simp_all add: fgt_zero_iff)
  obtain p0 where p0: "get_progress ?z ?s = Inr p0"
    and a0: "\<forall>nutrient goal. calculate_daily_goals ?z nutrient = Some goal \<and>
        \<not> fgt goal (Fin 0) \<longrightarrow>
        progress_field (Inr p0) nutrient ''percentage'' = Some (Num (Fin 0))"
    using get_progress_no_zero_division [of ?z ?s] by blast
  obtain p1 where p1: "get_progress ?n ?s = Inr p1"
    and a1: "\<forall>nutrient goal. calculate_daily_goals ?n nutrient = Some goal \<and>
        \<not> fgt goal (Fin 0) \<longrightarrow>
        progress_field (Inr p1) nutrient ''percentage'' = Some (Num (Fin 0))"
    using get_progress_no_zero_division [of ?n ?s] by blast
  have f0: "progress_field (get_progress ?z ?s) ''carb'' ''percentage'' = Some (Num (Fin 0))"
    using a0 g0 n0 unfolding p0 by blast
  have f1: "progress_field (get_progress ?n ?s) ''fat'' ''percentage'' = Some (Num (Fin 0))"
    using a1 g1 n1 unfolding p1 by blast
  from g0 n0 g1 n1 f0 f1 show ?thesis by (intro conjI)
qed

section \<open>Properties of the template views\<close>

lemma example_floats:
  "env_float example_env ''60'' = Some (Fin 60)"
  "env_float example_env ''13'' = Some (Fin 13)"
  "env_float example_env ''7'' = Some (Fin 7)"
  "env_float example_env ''27.0'' = Some (Fin 27)"
  "env_float example_env ''45.7'' = Some (dbl (457 / 10))"
  "env_float example_env ''27.3'' = Some (dbl (273 / 10))"
  "env_float example_env ''abc'' = None"
  "env_float example_env ''nan'' = Some NaN"
  "env_float example_env ''30.1'' = Some (dbl (301 / 10))"
  "env_float example_env ''34.2'' = Some (dbl (342 / 10))"
  "env_float example_env ''35.7'' = Some (dbl (357 / 10))"
proof -
  have e: "dbl 60 = Fin 60" "dbl 13 = Fin 13" "dbl 7 = Fin 7" "dbl 27 = Fin 27"
    by (simp_all add: double_eval)
  have d: "decimal_number ''60'' = Some 60" "decimal_number ''13'' = Some 13"
    "decimal_number ''7'' = Some 7" "decimal_number ''27.0'' = Some 27"
    "decimal_number ''45.7'' = Some (457 / 10)" "decimal_number ''27.3'' = Some (273 / 10)"
    "decimal_number ''abc'' = None"
    "decimal_number ''30.1'' = Some (301 / 10)" "decimal_number ''34.2'' = Some (342 / 10)"
    "decimal_number ''35.7'' = Some (357 / 10)"
    by (simp_all add: decimal_number_def decimal_def digit_val_def)
  show "env_float example_env ''60'' = Some (Fin 60)"
    "env_float example_env ''13'' = Some (Fin 13)"
    "env_float example_env ''7'' = Some (Fin 7)"
    "env_float example_env ''27.0'' = Some (Fin 27)"
    "env_float example_env ''45.7'' = Some (dbl (457 / 10))"
    "env_float example_env ''27.3'' = Some (dbl (273 / 10))"
    "env_float example_env ''abc'' = None"
    "env_float example_env ''nan'' = Some NaN"
    "env_float example_env ''30.1'' = Some (dbl (301 / 10))"
    "env_float example_env ''34.2'' = Some (dbl (342 / 10))"
    "env_float example_env ''35.7'' = Some (dbl (357 / 10))"
    by (simp_all add: example_env_def example_float_def d e)
qed

lemma form_float_Some:
  "fm k = Some v \<Longrightarrow> env_float env v = Some x \<Longrightarrow> form_float env fm k = Inr x"
  by (simp add: form_float_def bind_exn_def getitem_def to_float_def)

lemma form_float_bad:
  "fm k = Some v \<Longrightarrow> env_float env v = None \<Longrightarrow> form_float env fm k = Inl ValueError"
  by (simp add: form_float_def bind_exn_def getitem_def to_float_def)

lemma truthy_present: "truthy v \<Longrightarrow> \<exists>t. v = Some t"
  by (cases v) (simp_all add: truthy_def)

lemma append_one_neq: "s\<lparr>tbl_food_template := tbl_food_template s @ [t]\<rparr> \<noteq> s"
proof
  assume "s\<lparr>tbl_food_template := tbl_food_template s @ [t]\<rparr> = s"
  then have "tbl_food_template (s\<lparr>tbl_food_template := tbl_food_template s @ [t]\<rparr>) =
             tbl_food_template s" by simp
  then show False by simp
qed

lemma commit_floats_ok:
  "a \<noteq> NaN \<Longrightarrow> b \<noteq> NaN \<Longrightarrow> c \<noteq> NaN \<Longrightarrow> commit_floats [a, b, c] = Inr ()"
  by (simp add: commit_floats_def not_null_def)

lemma commit_floats_nan:
  "a = NaN \<or> b = NaN \<or> c = NaN \<Longrightarrow> commit_floats [a, b, c] = Inl IntegrityError"
  by (auto simp add: commit_floats_def not_null_def)

text \<open>The ways an add_template POST with parsed ratios can end.\<close>

lemma add_template_over:
  assumes "rq_method rq = POST"
    and "form_float env (rq_form rq) ''carb_ratio'' = Inr carb"
    and "form_float env (rq_form rq) ''protein_ratio'' = Inr protein"
    and "form_float env (rq_form rq) ''fat_ratio'' = Inr fat"
    and "fgt (fadd (fadd carb protein) fat) (Fin 100)"
  shows "add_template env rq s =
           (s, ([(Ratio_sum_exceeds, ''error'')], Rendered ''add_template.html''))"
  using assms by (simp add: add_template_def add_template_try_def bind_exn_def Let_def)

lemma add_template_no_name:
  assumes "rq_method rq = POST"
    and "form_float env (rq_form rq) ''carb_ratio'' = Inr carb"
    and "form_float env (rq_form rq) ''protein_ratio'' = Inr protein"
    and "form_float env (rq_form rq) ''fat_ratio'' = Inr fat"
    and "\<not> fgt (fadd (fadd carb protein) fat) (Fin 100)"
    and "rq_form rq ''name'' = None"
  shows "add_template env rq s =
           (s, ([(Add_failed KeyError, ''error'')], Rendered ''add_template.html''))"
  using assms
  by (simp add: add_template_def add_template_try_def bind_exn_def Let_def getitem_def)

lemma add_template_bad_calories:
  assumes "rq_method rq = POST"
    and "form_float env (rq_form rq) ''carb_ratio'' = Inr carb"
    and "form_float env (rq_form rq) ''protein_ratio'' = Inr protein"
    and "form_float env (rq_form rq) ''fat_ratio'' = Inr fat"
    and "\<not> fgt (fadd (fadd carb protein) fat) (Fin 100)"
    and "rq_form rq ''name'' = Some name"
    and "truthy (rq_form rq ''calories'')"
    and "\<not> (\<exists>c. form_float env (rq_form rq) ''calories'' = Inr c)"
  shows "add_template env rq s =
           (s, ([(Invalid_number, ''error'')], Rendered ''add_template.html''))"
proof -
  obtain t where t: "rq_form rq ''calories'' = Some t"
    using truthy_present [OF assms(7)] by blast
  have "form_float env (rq_form rq) ''calories'' = Inl ValueError"
    using assms(8) t
    by (cases "env_float env t")
      (simp_all add: form_float_def bind_exn_def getitem_def to_float_def)
  then show ?thesis
    using assms(1-7)
    by (simp add: add_template_def add_template_try_def bind_exn_def Let_def getitem_def)
qed

lemma add_template_nan:
  assumes "rq_method rq = POST"
    and "form_float env (rq_form rq) ''carb_ratio'' = Inr carb"
    and "form_float env (rq_form rq) ''protein_ratio'' = Inr protein"
    and "form_float env (rq_form rq) ''fat_ratio'' = Inr fat"
    and "\<not> fgt (fadd (fadd carb protein) fat) (Fin 100)"
    and "rq_form rq ''name'' = Some name"
    and "truthy (rq_form rq ''calories'') \<longrightarrow> (\<exists>c. form_float env (rq_form rq) ''calories'' = Inr c)"
    and "carb = NaN \<or> protein = NaN \<or> fat = NaN"
  shows "add_template env rq s =
           (s, ([(Add_failed IntegrityError, ''error'')], Rendered ''add_template.html''))"
proof (cases "truthy (rq_form rq ''calories'')")
  case True
  then obtain c where "form_float env (rq_form rq) ''calories'' = Inr c"
    using assms(7) by blast
  then show ?thesis
    using assms(1-6) True commit_floats_nan [OF assms(8)]
    by (simp add: add_template_def add_template_try_def bind_exn_def Let_def getitem_def)
next
  case False
  then show ?thesis
    using assms(1-6) commit_floats_nan [OF assms(8)]
    by (simp add: add_template_def add_template_try_def bind_exn_def Let_def getitem_def)
qed

lemma add_template_stores:
  assumes "rq_method rq = POST"
    and "form_float env (rq_form rq) ''carb_ratio'' = Inr carb"
    and "form_float env (rq_form rq) ''protein_ratio'' = Inr protein"
    and "form_float env (rq_form rq) ''fat_ratio'' = Inr fat"
    and "\<not> fgt (fadd (fadd carb protein) fat) (Fin 100)"
    and "rq_form rq ''name'' = Some name"
    and "truthy (rq_form rq ''calories'') \<longrightarrow> (\<exists>c. form_float env (rq_form rq) ''calories'' = Inr c)"
    and "carb \<noteq> NaN" and "protein \<noteq> NaN" and "fat \<noteq> NaN"
  shows "\<exists>calories. add_template env rq s =
           (s\<lparr>tbl_food_template := tbl_food_template s @
               [\<lparr>tpl_id = next_id (map tpl_id (tbl_food_template s)), tpl_name = name,
                 tpl_carb_ratio = sqlite_real carb, tpl_protein_ratio = sqlite_real protein,
                 tpl_fat_ratio = sqlite_real fat,
                 tpl_calories = calories, tpl_created_at = env_utcnow env\<rparr>]\<rparr>,
            ([(Template_added, ''success'')], Redirected ''templates''))"
proof (cases "truthy (rq_form rq ''calories'')")
  case True
  then obtain c where "form_float env (rq_form rq) ''calories'' = Inr c"
    using assms(7) by blast
  then show ?thesis
    using assms(1-6) True commit_floats_ok [OF assms(8-10)]
    by (intro exI [of _ "nullable c"])
      (simp add: add_template_def add_template_try_def bind_exn_def Let_def getitem_def)
next
  case False
  then show ?thesis
    using assms(1-6) commit_floats_ok [OF assms(8-10)]
    by (intro exI [of _ None])
      (simp add: add_template_def add_template_try_def bind_exn_def Let_def getitem_def)
qed

text \<open>
  Claim C7, as stated: for every \<^verbatim>\<open>add_template\<close> POST whose three ratio fields parse as
  numbers, a template is created if and only if the sum of the ratios is at most 100.
  The ratios are not all that the view reads: with ratios 60, 13 and 7 and a calories
  field that is not a number, \<^verbatim>\<open>float\<close> raises ValueError after the check of the sum, and
  no template is stored.
\<close>

theorem add_template_created_iff_counterexample:
  "rq_method (post (oats_form(''calories'' \<mapsto> ''abc''))) = POST \<and>
   form_float example_env (rq_form (post (oats_form(''calories'' \<mapsto> ''abc'')))) ''carb_ratio'' =
     Inr (Fin 60) \<and>
   form_float example_env (rq_form (post (oats_form(''calories'' \<mapsto> ''abc'')))) ''protein_ratio'' =
     Inr (Fin 13) \<and>
   form_float example_env (rq_form (post (oats_form(''calories'' \<mapsto> ''abc'')))) ''fat_ratio'' =
     Inr (Fin 7) \<and>
   fadd (fadd (Fin 60) (Fin 13)) (Fin 7) = Fin 80 \<and>
   fle (Fin 80) (Fin 100) \<and>
   add_template example_env (post (oats_form(''calories'' \<mapsto> ''abc''))) example_db =
     (example_db, ([(Invalid_number, ''error'')], Rendered ''add_template.html''))"
proof -
  let ?rq = "post (oats_form(''calories'' \<mapsto> ''abc''))"
  have m: "rq_method ?rq = POST" by (simp add: post_def)
  have c: "form_float example_env (rq_form ?rq) ''carb_ratio'' = Inr (Fin 60)"
    by (rule form_float_Some [OF _ example_floats(1)]) (simp add: post_def oats_form_def)
  have p: "form_float example_env (rq_form ?rq) ''protein_ratio'' = Inr (Fin 13)"
    by (rule form_float_Some [OF _ example_floats(2)]) (simp add: post_def oats_form_def)
  have f: "form_float example_env (rq_form ?rq) ''fat_ratio'' = Inr (Fin 7)"
    by (rule form_float_Some [OF _ example_floats(3)]) (simp add: post_def oats_form_def)
  have n: "rq_form ?rq ''name'' = Some ''oats''" by (simp add: post_def oats_form_def)
  have k: "rq_form ?rq ''calories'' = Some ''abc''" by (simp add: post_def oats_form_def)
  have t: "truthy (rq_form ?rq ''calories'')" by (simp add: k truthy_def)
  have b: "\<not> (\<exists>x. form_float example_env (rq_form ?rq) ''calories'' = Inr x)"
    by (simp add: form_float_bad [of "rq_form ?rq" "''calories''" "''abc''" example_env,
          OF k example_floats(7)])
  have sum: "fadd (fadd (Fin 60) (Fin 13)) (Fin 7) = Fin 80"
    by (simp add: double_eval)
  have le: "fle (Fin 80) (Fin 100)" "\<not> fgt (Fin 80) (Fin 100)"
    by (simp_all add: fle_def fgt_def flt_def val_def)
  have ng: "\<not> fgt (fadd (fadd (Fin 60) (Fin 13)) (Fin 7)) (Fin 100)"
    by (simp only: sum le simp_thms)
  have r: "add_template example_env ?rq example_db =
     (example_db, ([(Invalid_number, ''error'')], Rendered ''add_template.html''))"
    by (rule add_template_bad_calories [OF m c p f ng n t b])
  from m c p f sum le(1) r show ?thesis by (intro conjI)
qed

text \<open>
  Claim C7, amended. For every \<^verbatim>\<open>add_template\<close> POST whose three ratio fields parse as
  numbers, a template is created if and only if the double (carb + protein) + fat, each
  sum rounded, is not greater than 100, no ratio is NaN, the name field is present, and
  the calories field is absent, empty or parses as a number; the new template carries
  the three ratios as SQLite stores them. When the sum is greater than 100 the request
  is rejected with the message about the sum and the database is unchanged; whenever no
  template is created the database is unchanged and one error message is flashed.
\<close>

theorem add_template_created_iff:
  assumes "rq_method rq = POST"
    and "form_float env (rq_form rq) ''carb_ratio'' = Inr carb"
    and "form_float env (rq_form rq) ''protein_ratio'' = Inr protein"
    and "form_float env (rq_form rq) ''fat_ratio'' = Inr fat"
  shows "(fst (add_template env rq s) \<noteq> s \<longleftrightarrow>
            \<not> fgt (fadd (fadd carb protein) fat) (Fin 100) \<and>
            carb \<noteq> NaN \<and> protein \<noteq> NaN \<and> fat \<noteq> NaN \<and>
            rq_form rq ''name'' \<noteq> None \<and>
            (truthy (rq_form rq ''calories'') \<longrightarrow>
               (\<exists>c. form_float env (rq_form rq) ''calories'' = Inr c))) \<and>
         (fst (add_template env rq s) \<noteq> s \<longrightarrow>
            (\<exists>t. add_template env rq s =
                   (s\<lparr>tbl_food_template := tbl_food_template s @ [t]\<rparr>,
                    ([(Template_added, ''success'')], Redirected ''templates'')) \<and>
                 tpl_carb_ratio t = sqlite_real carb \<and>
                 tpl_protein_ratio t = sqlite_real protein \<and>
                 tpl_fat_ratio t = sqlite_real fat)) \<and>
         (fgt (fadd (fadd carb protein) fat) (Fin 100) \<longrightarrow>
            add_template env rq s =
              (s, ([(Ratio_sum_exceeds, ''error'')], Rendered ''add_template.html''))) \<and>
         (fst (add_template env rq s) = s \<longrightarrow>
            (\<exists>m. add_template env rq s = (s, ([(m, ''error'')], Rendered ''add_template.html''))))"
proof -
  let ?ok = "\<not> fgt (fadd (fadd carb protein) fat) (Fin 100) \<and>
            carb \<noteq> NaN \<and> protein \<noteq> NaN \<and> fat \<noteq> NaN \<and>
            rq_form rq ''name'' \<noteq> None \<and>
            (truthy (rq_form rq ''calories'') \<longrightarrow>
               (\<exists>c. form_float env (rq_form rq) ''calories'' = Inr c))"
  have created: "\<exists>t. add_template env rq s =
                   (s\<lparr>tbl_food_template := tbl_food_template s @ [t]\<rparr>,
                    ([(Template_added, ''success'')], Redirected ''templates'')) \<and>
                 tpl_carb_ratio t = sqlite_real carb \<and>
                 tpl_protein_ratio t = sqlite_real protein \<and>
                 tpl_fat_ratio t = sqlite_real fat" if ok: ?ok
  proof -
    from ok obtain name where n: "rq_form rq ''name'' = Some name" by blast
    from ok have le: "\<not> fgt (fadd (fadd carb protein) fat) (Fin 100)" by simp
    from ok have cal: "truthy (rq_form rq ''calories'') \<longrightarrow>
               (\<exists>c. form_float env (rq_form rq) ''calories'' = Inr c)" by blast
    from ok have nn: "carb \<noteq> NaN" "protein \<noteq> NaN" "fat \<noteq> NaN" by simp_all
    obtain calories where "add_template env rq s =
           (s\<lparr>tbl_food_template := tbl_food_template s @
               [\<lparr>tpl_id = next_id (map tpl_id (tbl_food_template s)), tpl_name = name,
                 tpl_carb_ratio = sqlite_real carb, tpl_protein_ratio = sqlite_real protein,
                 tpl_fat_ratio = sqlite_real fat,
                 tpl_calories = calories, tpl_created_at = env_utcnow env\<rparr>]\<rparr>,
            ([(Template_added, ''success'')], Redirected ''templates''))"
      using add_template_stores [OF assms le n cal nn] by blast
    then show ?thesis
      by (intro exI [of _ "\<lparr>tpl_id = next_id (map tpl_id (tbl_food_template s)), tpl_name = name,
                 tpl_carb_ratio = sqlite_real carb, tpl_protein_ratio = sqlite_real protein,
                 tpl_fat_ratio = sqlite_real fat,
                 tpl_calories = calories, tpl_created_at = env_utcnow env\<rparr>"]) simp
  qed
  have rejected: "\<exists>m. add_template env rq s =
      (s, ([(m, ''error'')], Rendered ''add_template.html''))" if no: "\<not> ?ok"
  proof (cases "fgt (fadd (fadd carb protein) fat) (Fin 100)")
    case True
    then show ?thesis using add_template_over [OF assms] by blast
  next
    case False
    show ?thesis
    proof (cases "rq_form rq ''name''")
      case None
      then show ?thesis using add_template_no_name [OF assms False] by blast
    next
      case (Some name)
      show ?thesis
      proof (cases "truthy (rq_form rq ''calories'') \<longrightarrow>
               (\<exists>c. form_float env (rq_form rq) ''calories'' = Inr c)")
        case True
        with no False Some have "carb = NaN \<or> protein = NaN \<or> fat = NaN" by auto
        then show ?thesis using add_template_nan [OF assms False Some True] by blast
      next
        case bad: False
        then have "truthy (rq_form rq ''calories'')"
          and "\<not> (\<exists>c. form_float env (rq_form rq) ''calories'' = Inr c)" by auto
        then show ?thesis using add_template_bad_calories [OF assms False Some] by blast
      qed
    qed
  qed
  have changed: "fst (add_template env rq s) \<noteq> s" if ?ok
    using created [OF that] append_one_neq by (metis fst_conv)
  have same: "fst (add_template env rq s) = s" if "\<not> ?ok"
    using rejected [OF that] by (metis fst_conv)
  have iff: "fst (add_template env rq s) \<noteq> s \<longleftrightarrow> ?ok"
    using changed same by blast
  have over: "fgt (fadd (fadd carb protein) fat) (Fin 100) \<longrightarrow>
            add_template env rq s =
              (s, ([(Ratio_sum_exceeds, ''error'')], Rendered ''add_template.html''))"
    using add_template_over [OF assms] by blast
  show ?thesis
    using iff created rejected over by blast
qed

text \<open>
  Ratios 60, 13 and 7 with a name create a template; so do ratios 45.7, 27.3 and 27.0,
  whose sum in double arithmetic is 100.0; ratios 60, 60 and 60 are rejected, and so are
  ratios 30.1, 34.2 and 35.7, whose sum in double arithmetic is 100.00000000000001.
\<close>

theorem add_template_created_iff_witness:
  "rq_method (post oats_form) = POST \<and>
   form_float example_env (rq_form (post oats_form)) ''carb_ratio'' = Inr (Fin 60) \<and>
   form_float example_env (rq_form (post oats_form)) ''protein_ratio'' = Inr (Fin 13) \<and>
   form_float example_env (rq_form (post oats_form)) ''fat_ratio'' = Inr (Fin 7) \<and>
   fst (add_template example_env (post oats_form) example_db) \<noteq> example_db \<and>
   form_float example_env (rq_form (post boundary_form)) ''carb_ratio'' = Inr (dbl (457 / 10)) \<and>
   form_float example_env (rq_form (post boundary_form)) ''protein_ratio'' = Inr (dbl (273 / 10)) \<and>
   form_float example_env (rq_form (post boundary_form)) ''fat_ratio'' = Inr (Fin 27) \<and>
   fadd (fadd (dbl (457 / 10)) (dbl (273 / 10))) (Fin 27) = Fin 100 \<and>
   fst (add_template example_env (post boundary_form) example_db) \<noteq> example_db \<and>
   form_float example_env (rq_form (post over_form)) ''carb_ratio'' = Inr (Fin 60) \<and>
   form_float example_env (rq_form (post over_form)) ''protein_ratio'' = Inr (Fin 60) \<and>
   form_float example_env (rq_form (post over_form)) ''fat_ratio'' = Inr (Fin 60) \<and>
   fgt (fadd (fadd (Fin 60) (Fin 60)) (Fin 60)) (Fin 100) \<and>
   add_template example_env (post over_form) example_db =
     (example_db, ([(Ratio_sum_exceeds, ''error'')], Rendered ''add_template.html'')) \<and>
   form_float example_env (rq_form (post rounding_form)) ''carb_ratio'' = Inr (dbl (301 / 10)) \<and>
   form_float example_env (rq_form (post rounding_form)) ''protein_ratio'' =
     Inr (dbl (342 / 10)) \<and>
   form_float example_env (rq_form (post rounding_form)) ''fat_ratio'' = Inr (dbl (357 / 10)) \<and>
   fadd (fadd (dbl (301 / 10)) (dbl (342 / 10))) (dbl (357 / 10)) =
     dbl (10000000000000001 / 100000000000000) \<and>
   fgt (dbl (10000000000000001 / 100000000000000)) (Fin 100) \<and>
   add_template example_env (post rounding_form) example_db =
     (example_db, ([(Ratio_sum_exceeds, ''error'')], Rendered ''add_template.html''))"
proof -
  have m: "rq_method (post oats_form) = POST" "rq_method (post over_form) = POST"
    "rq_method (post boundary_form) = POST"
    by (simp_all add: post_def)
  have c: "form_float example_env (rq_form (post oats_form)) ''carb_ratio'' = Inr (Fin 60)"
    by (rule form_float_Some [OF _ example_floats(1)]) (simp add: post_def oats_form_def)
  have p: "form_float example_env (rq_form (post oats_form)) ''protein_ratio'' = Inr (Fin 13)"
    by (rule form_float_Some [OF _ example_floats(2)]) (simp add: post_def oats_form_def)
  have f: "form_float example_env (rq_form (post oats_form)) ''fat_ratio'' = Inr (Fin 7)"
    by (rule form_float_Some [OF _ example_floats(3)]) (simp add: post_def oats_form_def)
  have c': "form_float example_env (rq_form (post over_form)) ''carb_ratio'' = Inr (Fin 60)"
    by (rule form_float_Some [OF _ example_floats(1)]) (simp add: post_def over_form_def)
  have p': "form_float example_env (rq_form (post over_form)) ''protein_ratio'' = Inr (Fin 60)"
    by (rule form_float_Some [OF _ example_floats(1)]) (simp add: post_def over_form_def)
  have f': "form_float example_env (rq_form (post over_form)) ''fat_ratio'' = Inr (Fin 60)"
    by (rule form_float_Some [OF _ example_floats(1)]) (simp add: post_def over_form_def)
  have cb: "form_float example_env (rq_form (post boundary_form)) ''carb_ratio'' =
      Inr (dbl (457 / 10))"
    by (rule form_float_Some [OF _ example_floats(5)]) (simp add: post_def boundary_form_def)
  have pb: "form_float example_env (rq_form (post boundary_form)) ''protein_ratio'' =
      Inr (dbl (273 / 10))"
    by (rule form_float_Some [OF _ example_floats(6)]) (simp add: post_def boundary_form_def)
  have fb: "form_float example_env (rq_form (post boundary_form)) ''fat_ratio'' = Inr (Fin 27)"
    by (rule form_float_Some [OF _ example_floats(4)]) (simp add: post_def boundary_form_def)
  have s1: "fadd (fadd (Fin 60) (Fin 13)) (Fin 7) = Fin 80"
    and s2: "fadd (fadd (dbl (457 / 10)) (dbl (273 / 10))) (Fin 27) = Fin 100"
    and s3: "fadd (fadd (Fin 60) (Fin 60)) (Fin 60) = Fin 180"
    by (simp_all add: double_eval)
  have g: "\<not> fgt (Fin 80) (Fin 100)" "\<not> fgt (Fin 100) (Fin 100)" "fgt (Fin 180) (Fin 100)"
    by (simp_all add: fgt_def flt_def val_def)
  have nn: "Fin 60 \<noteq> NaN" "Fin 13 \<noteq> NaN" "Fin 7 \<noteq> NaN" "Fin 27 \<noteq> NaN"
    "dbl (457 / 10) \<noteq> NaN" "dbl (273 / 10) \<noteq> NaN"
    by (simp_all add: dbl_def nearest_not_nan)
  have n: "rq_form (post oats_form) ''name'' \<noteq> None"
    "\<not> truthy (rq_form (post oats_form) ''calories'')"
    "rq_form (post boundary_form) ''name'' \<noteq> None"
    "\<not> truthy (rq_form (post boundary_form) ''calories'')"
    by (simp_all add: post_def oats_form_def boundary_form_def truthy_def)
  have a: "fst (add_template example_env (post oats_form) example_db) \<noteq> example_db"
    using add_template_created_iff [OF m(1) c p f, of example_db] n nn
    by (simp only: s1 g simp_thms)
  have ab: "fst (add_template example_env (post boundary_form) example_db) \<noteq> example_db"
    using add_template_created_iff [OF m(3) cb pb fb, of example_db] n nn
    by (simp only: s2 g simp_thms)
  have o: "fgt (fadd (fadd (Fin 60) (Fin 60)) (Fin 60)) (Fin 100)"
    by (simp only: s3 g)
  have b: "add_template example_env (post over_form) example_db =
     (example_db, ([(Ratio_sum_exceeds, ''error'')], Rendered ''add_template.html''))"
    using add_template_created_iff [OF m(2) c' p' f', of example_db] o by blast
  have mr: "rq_method (post rounding_form) = POST" by (simp add: post_def)
  have cr: "form_float example_env (rq_form (post rounding_form)) ''carb_ratio'' =
      Inr (dbl (301 / 10))"
    by (rule form_float_Some [OF _ example_floats(9)]) (simp add: post_def rounding_form_def)
  have pr: "form_float example_env (rq_form (post rounding_form)) ''protein_ratio'' =
      Inr (dbl (342 / 10))"
    by (rule form_float_Some [OF _ example_floats(10)]) (simp add: post_def rounding_form_def)
  have fr: "form_float example_env (rq_form (post rounding_form)) ''fat_ratio'' =
      Inr (dbl (357 / 10))"
    by (rule form_float_Some [OF _ example_floats(11)]) (simp add: post_def rounding_form_def)
  have s4: "fadd (fadd (dbl (301 / 10)) (dbl (342 / 10))) (dbl (357 / 10)) =
      dbl (10000000000000001 / 100000000000000)"
    by (simp add: double_eval)
  have g4: "fgt (dbl (10000000000000001 / 100000000000000)) (Fin 100)"
    by (simp add: double_eval)
  have o4: "fgt (fadd (fadd (dbl (301 / 10)) (dbl (342 / 10))) (dbl (357 / 10))) (Fin 100)"
    by (simp only: s4 g4)
  have br: "add_template example_env (post rounding_form) example_db =
     (example_db, ([(Ratio_sum_exceeds, ''error'')], Rendered ''add_template.html''))"
    using add_template_created_iff [OF mr cr pr fr, of example_db] o4 by blast
  from m(1) c p f a cb pb fb s2 ab c' p' f' o b cr pr fr s4 g4 br show ?thesis
    by (intro conjI)
qed

lemma find_tpl_id: "find (\<lambda>t. tpl_id t = i) xs = Some t \<Longrightarrow> tpl_id t = i"
  by (induction xs) (auto split: if_splits)

lemma find_map_replace:
  "find (\<lambda>t. tpl_id t = i) xs = Some t \<Longrightarrow> tpl_id t' = i \<Longrightarrow>
   find (\<lambda>t. tpl_id t = i) (map (\<lambda>x. if tpl_id x = i then t' else x) xs) = Some t'"
  by (induction xs) (auto split: if_splits)

lemma edit_template_try_ok:
  assumes "fm ''name'' = Some name"
    and "form_float env fm ''carb_ratio'' = Inr carb"
    and "form_float env fm ''protein_ratio'' = Inr protein"
    and "form_float env fm ''fat_ratio'' = Inr fat"
    and "truthy (fm ''calories'') \<longrightarrow> (\<exists>c. form_float env fm ''calories'' = Inr c)"
    and "carb \<noteq> NaN" and "protein \<noteq> NaN" and "fat \<noteq> NaN"
  shows "\<exists>calories. edit_template_try env fm template s =
           Inr (s\<lparr>tbl_food_template :=
                   map (\<lambda>t. if tpl_id t = tpl_id template
                             then template\<lparr>tpl_name := name, tpl_carb_ratio := sqlite_real carb,
                                    tpl_protein_ratio := sqlite_real protein,
                                    tpl_fat_ratio := sqlite_real fat,
                                    tpl_calories := calories\<rparr>
                             else t) (tbl_food_template s)\<rparr>,
                ([(Template_updated, ''success'')], Redirected ''templates''))"
proof (cases "truthy (fm ''calories'')")
  case True
  then obtain c where "form_float env fm ''calories'' = Inr c"
    using assms(5) by blast
  then show ?thesis
    using assms(1-4) True commit_floats_ok [OF assms(6-8)]
    by (intro exI [of _ "nullable c"])
      (simp add: edit_template_try_def bind_exn_def Let_def getitem_def)
next
  case False
  then show ?thesis
    using assms(1-4) commit_floats_ok [OF assms(6-8)]
    by (intro exI [of _ "tpl_calories template"])
      (simp add: edit_template_try_def bind_exn_def Let_def getitem_def)
qed

lemma edit_template_try_bad_calories:
  assumes "fm ''name'' = Some name"
    and "form_float env fm ''carb_ratio'' = Inr carb"
    and "form_float env fm ''protein_ratio'' = Inr protein"
    and "form_float env fm ''fat_ratio'' = Inr fat"
    and "truthy (fm ''calories'')"
    and "form_float env fm ''calories'' = Inl e"
  shows "edit_template_try env fm template s = Inl e"
  using assms by (simp add: edit_template_try_def bind_exn_def Let_def getitem_def)

text \<open>
  Claim C10, as stated: for every \<^verbatim>\<open>edit_template\<close> POST whose ratio fields parse as
  numbers, the new ratios are committed. As with creation the view reads more than the
  ratios: with a calories field that is not a number the edit fails and the stored
  ratios stay as they were.
\<close>

theorem edit_template_no_sum_check_counterexample:
  "rq_method (post (over_form(''calories'' \<mapsto> ''abc''))) = POST \<and>
   get_template example_db 1 = Some example_template \<and>
   form_float example_env (rq_form (post (over_form(''calories'' \<mapsto> ''abc'')))) ''carb_ratio'' =
     Inr (Fin 60) \<and>
   form_float example_env (rq_form (post (over_form(''calories'' \<mapsto> ''abc'')))) ''protein_ratio'' =
     Inr (Fin 60) \<and>
   form_float example_env (rq_form (post (over_form(''calories'' \<mapsto> ''abc'')))) ''fat_ratio'' =
     Inr (Fin 60) \<and>
   edit_template example_env (post (over_form(''calories'' \<mapsto> ''abc''))) 1 example_db =
     (example_db, ([(Update_failed ValueError, ''error'')], Rendered ''edit_template.html'')) \<and>
   tpl_carb_ratio example_template \<noteq> Fin 60"
proof -
  let ?fm = "over_form(''calories'' \<mapsto> ''abc'')"
  have m: "rq_method (post ?fm) = POST" by (simp add: post_def)
  have fm: "rq_form (post ?fm) = ?fm" by (simp add: post_def)
  have g: "get_template example_db 1 = Some example_template"
    by (simp add: get_template_def example_db_def example_template_def)
  have c: "form_float example_env ?fm ''carb_ratio'' = Inr (Fin 60)"
    by (rule form_float_Some [OF _ example_floats(1)]) (simp add: over_form_def)
  have p: "form_float example_env ?fm ''protein_ratio'' = Inr (Fin 60)"
    by (rule form_float_Some [OF _ example_floats(1)]) (simp add: over_form_def)
  have f: "form_float example_env ?fm ''fat_ratio'' = Inr (Fin 60)"
    by (rule form_float_Some [OF _ example_floats(1)]) (simp add: over_form_def)
  have n: "?fm ''name'' = Some ''rice''" by (simp add: over_form_def)
  have k: "?fm ''calories'' = Some ''abc''" by simp
  have t: "truthy (?fm ''calories'')" by (simp add: truthy_def)
  have b: "form_float example_env ?fm ''calories'' = Inl ValueError"
    by (rule form_float_bad [of ?fm "''calories''" "''abc''" example_env,
          OF k example_floats(7)])
  have e: "edit_template_try example_env ?fm example_template example_db = Inl ValueError"
    by (rule edit_template_try_bad_calories [OF n c p f t b])
  have r: "edit_template example_env (post ?fm) 1 example_db =
     (example_db, ([(Update_failed ValueError, ''error'')], Rendered ''edit_template.html''))"
    by (simp add: edit_template_def g m fm e)
  have d: "tpl_carb_ratio example_template \<noteq> Fin 60" by (simp add: example_template_def)
  from m g c p f r d show ?thesis by (simp only: fm) simp
qed

text \<open>
  Claim C10, amended. For every \<^verbatim>\<open>edit_template\<close> POST to an existing template whose name
  field is present, whose ratio fields parse as numbers none of which is NaN, and whose
  calories field is absent, empty or parses as a number, the new ratios are committed
  and the edit succeeds, with no condition on their sum; where the sum, in double
  arithmetic, is greater than 100, the same form sent to \<^verbatim>\<open>add_template\<close> is rejected:
  the check of the sum is applied at creation only.
\<close>

theorem edit_template_no_sum_check:
  assumes "rq_method rq = POST"
    and "get_template s i = Some template"
    and "rq_form rq ''name'' = Some name"
    and "form_float env (rq_form rq) ''carb_ratio'' = Inr carb"
    and "form_float env (rq_form rq) ''protein_ratio'' = Inr protein"
    and "form_float env (rq_form rq) ''fat_ratio'' = Inr fat"
    and "carb \<noteq> NaN" and "protein \<noteq> NaN" and "fat \<noteq> NaN"
    and "truthy (rq_form rq ''calories'') \<longrightarrow>
           (\<exists>c. form_float env (rq_form rq) ''calories'' = Inr c)"
  shows "\<exists>template'.
           get_template (fst (edit_template env rq i s)) i = Some template' \<and>
           tpl_name template' = name \<and>
           tpl_carb_ratio template' = sqlite_real carb \<and>
           tpl_protein_ratio template' = sqlite_real protein \<and>
           tpl_fat_ratio template' = sqlite_real fat \<and>
           snd (edit_template env rq i s) =
             ([(Template_updated, ''success'')], Redirected ''templates'') \<and>
           (fgt (fadd (fadd carb protein) fat) (Fin 100) \<longrightarrow>
              add_template env rq s =
                (s, ([(Ratio_sum_exceeds, ''error'')], Rendered ''add_template.html'')))"
proof -
  have i: "tpl_id template = i"
    using assms(2) unfolding get_template_def by (rule find_tpl_id)
  obtain calories where tr:
    "edit_template_try env (rq_form rq) template s =
       Inr (s\<lparr>tbl_food_template :=
               map (\<lambda>t. if tpl_id t = tpl_id template
                         then template\<lparr>tpl_name := name, tpl_carb_ratio := sqlite_real carb,
                                tpl_protein_ratio := sqlite_real protein,
                                tpl_fat_ratio := sqlite_real fat,
                                tpl_calories := calories\<rparr>
                         else t) (tbl_food_template s)\<rparr>,
            ([(Template_updated, ''success'')], Redirected ''templates''))"
    using edit_template_try_ok [OF assms(3-6) assms(10) assms(7-9)] by blast
  let ?t = "template\<lparr>tpl_name := name, tpl_carb_ratio := sqlite_real carb,
              tpl_protein_ratio := sqlite_real protein, tpl_fat_ratio := sqlite_real fat,
              tpl_calories := calories\<rparr>"
  have ti: "tpl_id ?t = i"
    using i by simp
  have result: "edit_template env rq i s =
      (s\<lparr>tbl_food_template := map (\<lambda>x. if tpl_id x = i then ?t else x) (tbl_food_template s)\<rparr>,
       ([(Template_updated, ''success'')], Redirected ''templates''))"
    unfolding edit_template_def by (simp only: assms(1,2) tr i option.case sum.case simp_thms if_True)
  have "find (\<lambda>t. tpl_id t = i) (map (\<lambda>x. if tpl_id x = i then ?t else x) (tbl_food_template s)) =
          Some ?t"
    using assms(2) ti unfolding get_template_def by (rule find_map_replace)
  then have found: "get_template (fst (edit_template env rq i s)) i = Some ?t"
    unfolding result get_template_def by simp
  have fields: "tpl_name ?t = name" "tpl_carb_ratio ?t = sqlite_real carb"
    "tpl_protein_ratio ?t = sqlite_real protein" "tpl_fat_ratio ?t = sqlite_real fat"
    by simp_all
  have resp: "snd (edit_template env rq i s) =
             ([(Template_updated, ''success'')], Redirected ''templates'')"
    unfolding result by simp
  have over: "fgt (fadd (fadd carb protein) fat) (Fin 100) \<longrightarrow>
              add_template env rq s =
                (s, ([(Ratio_sum_exceeds, ''error'')], Rendered ''add_template.html''))"
    using add_template_over [OF assms(1,4,5,6)] by blast
  from found fields resp over show ?thesis
    by (intro exI [of _ ?t] conjI)
qed

text \<open>
  Ratios 60, 60 and 60 are committed by an edit and rejected by a creation.
\<close>

theorem edit_template_no_sum_check_witness:
  "rq_method (post over_form) = POST \<and>
   get_template example_db 1 = Some example_template \<and>
   fgt (fadd (fadd (Fin 60) (Fin 60)) (Fin 60)) (Fin 100) \<and>
   (\<exists>template'.
      get_template (fst (edit_template example_env (post over_form) 1 example_db)) 1 =
        Some template' \<and>
      tpl_carb_ratio template' = Fin 60 \<and> tpl_protein_ratio template' = Fin 60 \<and>
      tpl_fat_ratio template' = Fin 60) \<and>
   snd (edit_template example_env (post over_form) 1 example_db) =
     ([(Template_updated, ''success'')], Redirected ''templates'') \<and>
   add_template example_env (post over_form) example_db =
     (example_db, ([(Ratio_sum_exceeds, ''error'')], Rendered ''add_template.html''))"
proof -
  have m: "rq_method (post over_form) = POST" by (simp add: post_def)
  have g: "get_template example_db 1 = Some example_template"
    by (simp add: get_template_def example_db_def example_template_def)
  have n: "rq_form (post over_form) ''name'' = Some ''rice''"
    by (simp add: post_def over_form_def)
  have c: "form_float example_env (rq_form (post over_form)) ''carb_ratio'' = Inr (Fin 60)"
    by (rule form_float_Some [OF _ example_floats(1)]) (simp add: post_def over_form_def)
  have p: "form_float example_env (rq_form (post over_form)) ''protein_ratio'' = Inr (Fin 60)"
    by (rule form_float_Some [OF _ example_floats(1)]) (simp add: post_def over_form_def)
  have f: "form_float example_env (rq_form (post over_form)) ''fat_ratio'' = Inr (Fin 60)"
    by (rule form_float_Some [OF _ example_floats(1)]) (simp add: post_def over_form_def)
  have k: "truthy (rq_form (post over_form) ''calories'') \<longrightarrow>
           (\<exists>c. form_float example_env (rq_form (post over_form)) ''calories'' = Inr c)"
    by (simp add: post_def over_form_def truthy_def)
  have nn: "Fin 60 \<noteq> NaN" by simp
  have s3: "fadd (fadd (Fin 60) (Fin 60)) (Fin 60) = Fin 180"
    by (simp add: double_eval)
  have o: "fgt (fadd (fadd (Fin 60) (Fin 60)) (Fin 60)) (Fin 100)"
    unfolding s3 by (simp add: fgt_def flt_def val_def)
  show ?thesis
    using edit_template_no_sum_check [OF m g n c p f nn nn nn k] m g o
    by (auto simp add: sqlite_real_def)
qed

section \<open>Daily records are never modified\<close>

lemma find_rec_id: "find (\<lambda>r. rec_id r = i) xs = Some r \<Longrightarrow> rec_id r = i"
  by (induction xs) (auto split: if_splits)

lemma config_try_records:
  "config_try env fm s = Inr (s', resp) \<Longrightarrow> tbl_daily_record s' = tbl_daily_record s"
  by (auto simp add: config_try_def bind_exn_def Let_def split: sum.splits option.splits)

lemma config_records: "tbl_daily_record (fst (config env rq s)) = tbl_daily_record s"
proof (cases "rq_method rq = POST")
  case True
  show ?thesis
  proof (cases "config_try env (rq_form rq) s")
    case (Inl e)
    with True show ?thesis by (cases e) (simp_all add: config_def)
  next
    case (Inr result)
    obtain s' resp where "result = (s', resp)" by (cases result)
    with True Inr config_try_records [of env "rq_form rq" s s' resp]
    show ?thesis by (simp add: config_def)
  qed
next
  case False
  then show ?thesis by (simp add: config_def)
qed

lemma add_template_try_records:
  "add_template_try env fm s = Inr (s', resp) \<Longrightarrow> tbl_daily_record s' = tbl_daily_record s"
  by (auto simp add: add_template_try_def bind_exn_def Let_def split: sum.splits if_splits)

lemma add_template_records: "tbl_daily_record (fst (add_template env rq s)) = tbl_daily_record s"
proof (cases "rq_method rq = POST")
  case True
  show ?thesis
  proof (cases "add_template_try env (rq_form rq) s")
    case (Inl e)
    with True show ?thesis by (cases e) (simp_all add: add_template_def)
  next
    case (Inr result)
    obtain s' resp where "result = (s', resp)" by (cases result)
    with True Inr add_template_try_records [of env "rq_form rq" s s' resp]
    show ?thesis by (simp add: add_template_def)
  qed
next
  case False
  then show ?thesis by (simp add: add_template_def)
qed

lemma edit_template_try_records:
  "edit_template_try env fm t s = Inr (s', resp) \<Longrightarrow> tbl_daily_record s' = tbl_daily_record s"
  by (auto simp add: edit_template_try_def bind_exn_def Let_def split: sum.splits if_splits)

lemma edit_template_records:
  "tbl_daily_record (fst (edit_template env rq i s)) = tbl_daily_record s"
proof (cases "get_template s i")
  case None
  then show ?thesis by (simp add: edit_template_def)
next
  case (Some t)
  show ?thesis
  proof (cases "rq_method rq = POST")
    case True
    show ?thesis
    proof (cases "edit_template_try env (rq_form rq) t s")
      case (Inl e)
      with True Some show ?thesis by (simp add: edit_template_def)
    next
      case (Inr result)
      obtain s' resp where "result = (s', resp)" by (cases result)
      with True Some Inr edit_template_try_records [of env "rq_form rq" t s s' resp]
      show ?thesis by (simp add: edit_template_def)
    qed
  next
    case False
    with Some show ?thesis by (simp add: edit_template_def)
  qed
qed

lemma delete_template_records:
  "tbl_daily_record (fst (delete_template rq i s)) = tbl_daily_record s"
  by (simp add: delete_template_def split: option.splits)

lemma read_only_records:
  "fst (index rq s) = s" "fst (templates rq s) = s" "fst (history rq s) = s"
  "fst (api_progress env rq s) = s"
  by (simp_all add: index_def templates_def history_def api_progress_def)

lemma add_record_try_records:
  "add_record_try env fm s = Inr (s', resp) \<Longrightarrow>
   \<exists>r. tbl_daily_record s' = tbl_daily_record s @ [r]"
  by (auto simp add: add_record_try_def bind_exn_def Let_def split: sum.splits prod.splits)

lemma add_record_records:
  "\<exists>new. tbl_daily_record (fst (add_record env rq s)) = tbl_daily_record s @ new"
proof (cases "rq_method rq = POST")
  case True
  show ?thesis
  proof (cases "add_record_try env (rq_form rq) s")
    case (Inl e)
    with True have "tbl_daily_record (fst (add_record env rq s)) = tbl_daily_record s"
      by (cases e) (simp_all add: add_record_def)
    then show ?thesis by simp
  next
    case (Inr result)
    obtain s' resp where "result = (s', resp)" by (cases result)
    with True Inr add_record_try_records [of env "rq_form rq" s s' resp]
    show ?thesis by (auto simp add: add_record_def)
  qed
next
  case False
  then show ?thesis by (simp add: add_record_def)
qed

lemma delete_record_records:
  "tbl_daily_record (fst (delete_record rq j s)) = tbl_daily_record s \<or>
   tbl_daily_record (fst (delete_record rq j s)) =
     filter (\<lambda>r. rec_id r \<noteq> j) (tbl_daily_record s)"
  by (auto simp add: delete_record_def get_record_def dest: find_rec_id split: option.splits)

lemma init_database_records: "tbl_daily_record (init_database env s) = tbl_daily_record s"
  by (simp add: init_database_def)

text \<open>
  Claim C8. Editing or deleting a food template leaves the table of daily records as it
  was, so every record keeps its ratios and its weight. No view other than
  \<^verbatim>\<open>delete_record\<close> changes or removes an existing record: after any other request the
  table is the old table, followed by the new record when the request was a successful
  \<^verbatim>\<open>add_record\<close>; \<^verbatim>\<open>delete_record\<close> at most removes the rows with the given id, and
  \<^verbatim>\<open>init_database\<close> leaves the table alone.
\<close>

theorem records_immutable:
  "(route = Edit_template i \<or> route = Delete_template i \<longrightarrow>
      tbl_daily_record (fst (handle env route rq s)) = tbl_daily_record s) \<and>
   ((\<forall>j. route \<noteq> Delete_record j) \<longrightarrow>
      (\<exists>new. tbl_daily_record (fst (handle env route rq s)) = tbl_daily_record s @ new)) \<and>
   (route = Delete_record j \<longrightarrow>
      tbl_daily_record (fst (handle env route rq s)) = tbl_daily_record s \<or>
      tbl_daily_record (fst (handle env route rq s)) =
        filter (\<lambda>r. rec_id r \<noteq> j) (tbl_daily_record s)) \<and>
   tbl_daily_record (init_database env s) = tbl_daily_record s"
proof (intro conjI impI)
  assume "route = Edit_template i \<or> route = Delete_template i"
  then show "tbl_daily_record (fst (handle env route rq s)) = tbl_daily_record s"
    by (auto simp add: edit_template_records delete_template_records)
next
  assume other: "\<forall>j. route \<noteq> Delete_record j"
  show "\<exists>new. tbl_daily_record (fst (handle env route rq s)) = tbl_daily_record s @ new"
  proof (cases route)
    case Add_record
    then show ?thesis using add_record_records [of env rq s] by simp
  next
    case (Delete_record k)
    with other show ?thesis by simp
  qed (simp_all add: read_only_records config_records add_template_records
         edit_template_records delete_template_records)
next
  assume "route = Delete_record j"
  then show "tbl_daily_record (fst (handle env route rq s)) = tbl_daily_record s \<or>
      tbl_daily_record (fst (handle env route rq s)) =
        filter (\<lambda>r. rec_id r \<noteq> j) (tbl_daily_record s)"
    using delete_record_records [of rq j s] by simp
next
  show "tbl_daily_record (init_database env s) = tbl_daily_record s"
    by (rule init_database_records)
qed

text \<open>
  On the example database an edit and a deletion of template 1 leave the record made
  from it in place, and deleting the template empties the table of templates.
\<close>

theorem records_immutable_witness:
  "tbl_daily_record (fst (handle example_env (Edit_template 1) (post over_form) example_db)) =
     [example_record] \<and>
   tbl_daily_record
     (fst (handle example_env (Delete_template 1) \<lparr>rq_method = GET, rq_form = Map.empty\<rparr>
        example_db)) = [example_record] \<and>
   tbl_food_template
     (fst (handle example_env (Delete_template 1) \<lparr>rq_method = GET, rq_form = Map.empty\<rparr>
        example_db)) = [] \<and>
   (\<exists>new. tbl_daily_record (fst (handle example_env Add_template (post oats_form) example_db)) =
      [example_record] @ new) \<and>
   (tbl_daily_record
      (fst (handle example_env (Delete_record 1) \<lparr>rq_method = GET, rq_form = Map.empty\<rparr>
         example_db)) = [example_record] \<or>
    tbl_daily_record
      (fst (handle example_env (Delete_record 1) \<lparr>rq_method = GET, rq_form = Map.empty\<rparr>
         example_db)) = [])"
proof -
  have d: "tbl_daily_record example_db = [example_record]"
    by (simp add: example_db_def)
  have t: "tbl_food_template
     (fst (handle example_env (Delete_template 1) \<lparr>rq_method = GET, rq_form = Map.empty\<rparr>
        example_db)) = []"
    by (simp add: delete_template_def get_template_def example_db_def example_template_def)
  have f: "filter (\<lambda>r. rec_id r \<noteq> 1) [example_record] = []"
    by (simp add: example_record_def)
  show ?thesis
    using records_immutable [of "Edit_template 1" 1 example_env "post over_form" example_db 1]
      records_immutable [of "Delete_template 1" 1 example_env
        "\<lparr>rq_method = GET, rq_form = Map.empty\<rparr>" example_db 1]
      records_immutable [of Add_template 1 example_env "post oats_form" example_db 1]
      records_immutable [of "Delete_record 1" 1 example_env
        "\<lparr>rq_method = GET, rq_form = Map.empty\<rparr>" example_db 1]
    by (simp only: d t f route.distinct route.inject simp_thms)
qed

end
